theory Spec2Isabelle
  imports Complex_Main
begin

section \<open>Python values used by \<open>netmiko/channel.py\<close>\<close>

text \<open>
  Python \<open>str\<close> and \<open>bytes\<close> are both modelled as character lists (an Isabelle
  \<open>char\<close> is one byte); the two synonyms keep apart what the source keeps apart.
  Every message the module builds itself is plain ASCII.
\<close>

type_synonym bytes = "char list"

abbreviation NL :: string where
  "NL \<equiv> [CHR 0x0A]"

text \<open>
  The exceptions that reach the module. \<open>socket_error\<close> is \<open>socket.error\<close>
  (\<open>OSError\<close>); \<open>SSHException\<close> and \<open>AuthenticationException\<close> are paramiko's,
  the second a subclass of the first; \<open>Exception\<close> stands for any other subclass of
  \<open>Exception\<close>. The string is what \<open>str(e)\<close> returns; for \<open>AttributeError\<close> and
  \<open>KeyError\<close> it is the name of the missing attribute or key.
\<close>

datatype exn =
    EOFError string
  | AttributeError string
  | KeyError string
  | ValueError string
  | AssertionError string
  | UnicodeDecodeError string
  | OverflowError string
  | socket_error string
  | SSHException string
  | AuthenticationException string
  | NetmikoTimeoutException string
  | NetmikoAuthenticationException string
  | Exception string

fun str_exn :: "exn \<Rightarrow> string" where
  "str_exn (EOFError m) = m"
| "str_exn (AttributeError m) = m"
| "str_exn (KeyError m) = m"
| "str_exn (ValueError m) = m"
| "str_exn (AssertionError m) = m"
| "str_exn (UnicodeDecodeError m) = m"
| "str_exn (OverflowError m) = m"
| "str_exn (socket_error m) = m"
| "str_exn (SSHException m) = m"
| "str_exn (AuthenticationException m) = m"
| "str_exn (NetmikoTimeoutException m) = m"
| "str_exn (NetmikoAuthenticationException m) = m"
| "str_exn (Exception m) = m"

text \<open>\<open>except socket.error\<close>, \<open>except paramiko.ssh_exception.SSHException\<close>, ...: the
  clauses test the class of the exception, subclasses included. The two exceptions of
  \<open>netmiko.ssh_exception\<close> are taken to derive from paramiko's, as their names say; the
  module only raises them, and connecting never does.\<close>

fun isinstance_socket_error :: "exn \<Rightarrow> bool" where
  "isinstance_socket_error (socket_error m) = True"
| "isinstance_socket_error e = False"

fun isinstance_AuthenticationException :: "exn \<Rightarrow> bool" where
  "isinstance_AuthenticationException (AuthenticationException m) = True"
| "isinstance_AuthenticationException (NetmikoAuthenticationException m) = True"
| "isinstance_AuthenticationException e = False"

fun isinstance_SSHException :: "exn \<Rightarrow> bool" where
  "isinstance_SSHException (SSHException m) = True"
| "isinstance_SSHException (NetmikoTimeoutException m) = True"
| "isinstance_SSHException e = isinstance_AuthenticationException e"

fun isinstance_UnicodeDecodeError :: "exn \<Rightarrow> bool" where
  "isinstance_UnicodeDecodeError (UnicodeDecodeError m) = True"
| "isinstance_UnicodeDecodeError e = False"

fun isinstance_AttributeError :: "exn \<Rightarrow> bool" where
  "isinstance_AttributeError (AttributeError m) = True"
| "isinstance_AttributeError e = False"

fun isinstance_EOFError :: "exn \<Rightarrow> bool" where
  "isinstance_EOFError (EOFError m) = True"
| "isinstance_EOFError e = False"

text \<open>An instance attribute: set by \<open>self.x = v\<close>, removed by \<open>del self.x\<close>; reading
  one that is not there raises \<open>AttributeError\<close>.\<close>

datatype 'a attribute = NoAttr | Attr 'a

text \<open>\<open>x in s\<close> on strings: \<open>x\<close> occurs in \<open>s\<close> as a substring.\<close>

fun startswith :: "string \<Rightarrow> string \<Rightarrow> bool" where
  "startswith s [] = True"
| "startswith [] (p # ps) = False"
| "startswith (c # cs) (p # ps) = (c = p \<and> startswith cs ps)"

fun str_in :: "string \<Rightarrow> string \<Rightarrow> bool" where
  "str_in x [] = (x = [])"
| "str_in x (c # cs) = (startswith (c # cs) x \<or> str_in x cs)"

text \<open>\<open>str(n)\<close> for an integer.\<close>

definition digit_char :: "nat \<Rightarrow> char" where
  "digit_char d = ''0123456789'' ! d"

function str_nat :: "nat \<Rightarrow> string" where
  "str_nat n = (if n < 10 then [digit_char n] else str_nat (n div 10) @ [digit_char (n mod 10)])"
  by pat_completeness auto
termination
  by (relation "measure id") auto

definition str_int :: "int \<Rightarrow> string" where
  "str_int i = (if i < 0 then ''-'' @ str_nat (nat (- i)) else str_nat (nat i))"

text \<open>\<open>str.lstrip()\<close>: leading whitespace removed.\<close>

definition isspace :: "char \<Rightarrow> bool" where
  "isspace c = (c \<in> set [CHR '' '', CHR 0x09, CHR 0x0A, CHR 0x0B, CHR 0x0C, CHR 0x0D])"

definition lstrip :: "string \<Rightarrow> string" where
  "lstrip s = dropWhile isspace s"

section \<open>What the module imports\<close>

text \<open>
  \<open>strip_ansi_escape_codes\<close> and \<open>write_bytes\<close> (\<open>netmiko.utilities\<close>), \<open>MAX_BUFFER\<close>
  (\<open>netmiko.netmiko_globals\<close>), \<open>re.search\<close> and \<open>bytes.decode("utf-8", "ignore")\<close>
  are used by the module and defined elsewhere. They are parameters of the model:
  every function below that calls one takes the record \<open>L\<close>, and every theorem holds
  for whatever they compute. \<open>re_search\<close> and \<open>write_bytes\<close> may raise.

  So are the two operations on floats that the module uses. A float is modelled by the
  rational number it denotes. \<open>float_add t n\<close> is \<open>t + n\<close> for a float \<open>t\<close> and an
  integer \<open>n\<close>, which rounds and raises \<open>OverflowError\<close> when \<open>n\<close> is too large for a
  float; \<open>float_mul x y\<close> is the product of two floats, which rounds. Comparing two
  floats compares the numbers they denote.
\<close>

record lib =
  strip_ansi_escape_codes :: "string \<Rightarrow> string"
  re_search :: "string \<Rightarrow> string \<Rightarrow> int \<Rightarrow> exn + bool"
  write_bytes :: "string \<Rightarrow> string \<Rightarrow> exn + bytes"
  decode_utf8_ignore :: "bytes \<Rightarrow> string"
  MAX_BUFFER :: nat
  float_add :: "rat \<Rightarrow> int \<Rightarrow> exn + rat"
  float_mul :: "rat \<Rightarrow> rat \<Rightarrow> rat"

subsection \<open>The clock\<close>

text \<open>
  The wall clock belongs to the environment. \<open>wall_clock w n\<close> is what the call number
  \<open>n\<close> of \<open>time.time()\<close> returns, in seconds, whatever has made time pass since the
  call before: the reads, the searches, the sleeps. \<open>time_calls\<close> counts the calls made
  so far, so that \<open>wall_clock w (time_calls w)\<close> is what the clock would show if it were
  read now. \<open>time.sleep(secs)\<close> raises \<open>ValueError\<close> on a negative length and otherwise
  returns; \<open>slept\<close> lists the lengths slept so far.
\<close>

record clock =
  time_calls :: nat
  wall_clock :: "nat \<Rightarrow> rat"
  slept :: "rat list"

definition time_time :: "clock \<Rightarrow> rat \<times> clock" where
  "time_time w = (wall_clock w (time_calls w), w\<lparr>time_calls := Suc (time_calls w)\<rparr>)"

definition time_sleep :: "rat \<Rightarrow> clock \<Rightarrow> exn + clock" where
  "time_sleep secs w =
     (if secs < 0 then Inl (ValueError ''sleep length must be non-negative'')
      else Inr (w\<lparr>slept := slept w @ [secs]\<rparr>))"

subsection \<open>The session log\<close>

text \<open>
  Modelled from the spec: \<open>netmiko.session_log.SessionLog\<close> is not among the sources.
  The spec gives it an append operation accepting text and two read-only flags, one
  saying that the sink is finalized and one saying that writes are to be recorded.
  \<open>written\<close> is what has been appended; \<open>write_error\<close>, when set, is the exception
  the sink's \<open>write\<close> raises (the sink then records nothing).
\<close>

record SessionLog =
  fin :: bool
  record_writes :: bool
  written :: "string list"
  write_error :: "exn option"

definition SessionLog_write :: "SessionLog \<Rightarrow> string \<Rightarrow> exn + SessionLog" where
  "SessionLog_write sl data =
     (case write_error sl of
        Some e \<Rightarrow> Inl e
      | None \<Rightarrow> Inr (sl\<lparr>written := written sl @ [data]\<rparr>))"

section \<open>The channel and its decorators\<close>

text \<open>The attributes every backend's \<open>__init__\<close> sets: the text encoding and the
  optional session log that \<open>Channel\<close> declares, the protocol name, the device type
  and the connection handle \<open>remote_conn\<close> (\<open>None\<close> until a connection is established),
  whose type \<open>'c\<close> is the backend's transport object. A backend with attributes of its
  own extends the record.\<close>

record 'c Channel =
  encoding :: string
  session_log :: "SessionLog option"
  protocol :: string
  device_type :: string
  remote_conn :: "'c option attribute"

text \<open>A method is a function from the object to its result (the value returned or the
  exception raised) and the object afterwards.\<close>

definition ansi_strip ::
  "lib \<Rightarrow> ('s \<Rightarrow> (exn + string) \<times> 's) \<Rightarrow> 's \<Rightarrow> (exn + string) \<times> 's" where
  "ansi_strip L func self =
     (case func self of
        (Inl e, self') \<Rightarrow> (Inl e, self')
      | (Inr output, self') \<Rightarrow> (Inr (strip_ansi_escape_codes L output), self'))"

definition log_reads ::
  "(('c, 'a) Channel_scheme \<Rightarrow> (exn + string) \<times> ('c, 'a) Channel_scheme) \<Rightarrow>
   ('c, 'a) Channel_scheme \<Rightarrow> (exn + string) \<times> ('c, 'a) Channel_scheme" where
  "log_reads func self =
     (case func self of
        (Inl e, self') \<Rightarrow> (Inl e, self')
      | (Inr output, self') \<Rightarrow>
          (case session_log self' of
             None \<Rightarrow> (Inr output, self')
           | Some sl \<Rightarrow>
               (case SessionLog_write sl output of
                  Inl e \<Rightarrow> (Inl e, self')
                | Inr sl' \<Rightarrow> (Inr output, self'\<lparr>session_log := Some sl'\<rparr>))))"

text \<open>\<open>log_writes\<close>: the wrapped write runs first, outside the \<open>try\<close>; then the bytes
  are formatted for the debug log and the text is appended to the session log, both
  inside it; \<open>except UnicodeDecodeError: pass\<close>.\<close>

definition log_writes ::
  "lib \<Rightarrow> (('c, 'a) Channel_scheme \<Rightarrow> string \<Rightarrow> (exn + unit) \<times> ('c, 'a) Channel_scheme) \<Rightarrow>
   ('c, 'a) Channel_scheme \<Rightarrow> string \<Rightarrow> (exn + unit) \<times> ('c, 'a) Channel_scheme" where
  "log_writes L func self out_data =
     (case func self out_data of
        (Inl e, self') \<Rightarrow> (Inl e, self')
      | (Inr u, self') \<Rightarrow>
          (let attempt =
             (case write_bytes L out_data (encoding self') of
                Inl e \<Rightarrow> (Inl e, self')
              | Inr b \<Rightarrow>
                  (case session_log self' of
                     None \<Rightarrow> (Inr (), self')
                   | Some sl \<Rightarrow>
                       if fin sl \<or> record_writes sl then
                         (case SessionLog_write sl out_data of
                            Inl e \<Rightarrow> (Inl e, self')
                          | Inr sl' \<Rightarrow> (Inr (), self'\<lparr>session_log := Some sl'\<rparr>))
                       else (Inr (), self')))
           in (case attempt of
                 (Inl e, s) \<Rightarrow> if isinstance_UnicodeDecodeError e then (Inr (), s) else (Inl e, s)
               | (Inr u', s) \<Rightarrow> (Inr (), s))))"

section \<open>\<open>Channel.read_channel_expect\<close>\<close>

text \<open>\<open>loop_sleep_time = 0.01\<close>: the float nearest to one hundredth.\<close>

definition loop_sleep_time :: rat where
  "loop_sleep_time = 5764607523034235 / 576460752303423488"

definition pattern_timeout_msg :: "string \<Rightarrow> string \<Rightarrow> string" where
  "pattern_timeout_msg pattern output =
     NL @ NL @ ''Timed-out reading channel, pattern not found in output: '' @ pattern @ NL @
     ''Data retrieved before timeout:'' @ NL @ NL @ output @ NL @ NL"

text \<open>The \<open>while True\<close> loop of \<open>read_channel_expect\<close>, one iteration per unfolding:
  \<open>read_buffer\<close> is the backend's single poll, \<open>output\<close> the text accumulated so far.
  The clock is read only when the pattern is not found. Nothing in the loop makes the
  clock pass the deadline, so the loop is a partial function: \<open>None\<close> when it does not
  return.\<close>

partial_function (option) read_channel_expect_loop ::
  "lib \<Rightarrow> ('s \<Rightarrow> (exn + string) \<times> 's) \<Rightarrow> string \<Rightarrow> int \<Rightarrow> rat \<Rightarrow> string \<Rightarrow>
   clock \<times> 's \<Rightarrow> ((exn + string) \<times> clock \<times> 's) option" where
  "read_channel_expect_loop L read_buffer pattern re_flags read_timeout output ws =
     (case read_buffer (snd ws) of
        (Inl e, self') \<Rightarrow> Some (Inl e, fst ws, self')
      | (Inr new, self') \<Rightarrow>
          (let output = output @ new in
           (case re_search L pattern output re_flags of
              Inl e \<Rightarrow> Some (Inl e, fst ws, self')
            | Inr found \<Rightarrow>
                if found then Some (Inr (strip_ansi_escape_codes L output), fst ws, self')
                else
                  (case time_time (fst ws) of
                     (t, w1) \<Rightarrow>
                       if t > read_timeout then
                         Some (Inl (NetmikoTimeoutException
                            (pattern_timeout_msg pattern (strip_ansi_escape_codes L output))),
                               w1, self')
                       else
                         (case time_sleep loop_sleep_time w1 of
                            Inl e \<Rightarrow> Some (Inl e, w1, self')
                          | Inr w2 \<Rightarrow>
                              read_channel_expect_loop L read_buffer pattern re_flags
                                read_timeout output (w2, self'))))))"

declare read_channel_expect_loop.simps [code]

definition read_channel_expect ::
  "lib \<Rightarrow> ('s \<Rightarrow> (exn + string) \<times> 's) \<Rightarrow> string \<Rightarrow> int \<Rightarrow> int \<Rightarrow>
   clock \<times> 's \<Rightarrow> ((exn + string) \<times> clock \<times> 's) option" where
  "read_channel_expect L read_buffer pattern timeout re_flags ws =
     (case time_time (fst ws) of
        (t, w1) \<Rightarrow>
          (case float_add L t timeout of
             Inl e \<Rightarrow> Some (Inl e, w1, snd ws)
           | Inr read_timeout \<Rightarrow>
               read_channel_expect_loop L read_buffer pattern re_flags read_timeout []
                 (w1, snd ws)))"

section \<open>The secure-shell backend\<close>

subsection \<open>paramiko, as the backend uses it\<close>

text \<open>
  The interactive shell (\<open>paramiko.channel.Channel\<close>). \<open>incoming\<close> scripts what the
  device does: each \<open>recv_ready()\<close> looks at the head of the script; \<open>NotReady\<close> answers
  \<open>False\<close> once and is consumed, \<open>Ready b\<close> answers \<open>True\<close> and leaves \<open>b\<close> for
  \<open>recv\<close>, an exhausted script answers \<open>False\<close> for ever. \<open>Ready []\<close> is a \<open>recv\<close>
  that returns no bytes: the end of the stream. \<open>sendall\<close> raises \<open>sendall_error\<close>
  when that is set; with \<open>loopback\<close> the peer sends back whatever it is sent.
\<close>

datatype poll = NotReady | Ready bytes

record paramiko_Channel =
  incoming :: "poll list"
  sent :: "bytes list"
  sendall_error :: "exn option"
  loopback :: bool
  transport_active :: bool
  chan_timeout :: "int option"
  transport_keepalive :: "int option"

definition recv_ready :: "paramiko_Channel \<Rightarrow> bool \<times> paramiko_Channel" where
  "recv_ready c =
     (case incoming c of
        [] \<Rightarrow> (False, c)
      | NotReady # ps \<Rightarrow> (False, c\<lparr>incoming := ps\<rparr>)
      | Ready b # ps \<Rightarrow> (True, c))"

definition recv :: "nat \<Rightarrow> paramiko_Channel \<Rightarrow> (exn + bytes) \<times> paramiko_Channel" where
  "recv nbytes c =
     (case incoming c of
        Ready b # ps \<Rightarrow>
          (Inr (take nbytes b),
           c\<lparr>incoming := (if nbytes < length b then Ready (drop nbytes b) # ps else ps)\<rparr>)
      | _ \<Rightarrow> (Inl (socket_error ''timed out''), c))"

definition sendall :: "bytes \<Rightarrow> paramiko_Channel \<Rightarrow> (exn + unit) \<times> paramiko_Channel" where
  "sendall b c =
     (case sendall_error c of
        Some e \<Rightarrow> (Inl e, c)
      | None \<Rightarrow>
          (Inr (),
           c\<lparr>sent := sent c @ [b],
             incoming := (if loopback c \<and> b \<noteq> [] then incoming c @ [Ready b] else incoming c)\<rparr>))"

text \<open>The client (\<open>paramiko.SSHClient\<close>, or \<open>SSHClient_noauth\<close>), and what its calls
  meet outside the program: whether a file exists, and the exception each call
  raises, if any. \<open>close_calls\<close> counts the calls of the client's \<open>close()\<close>.\<close>

datatype key_policy = AutoAddPolicy | RejectPolicy

record SSHClient =
  noauth :: bool
  system_host_keys_loaded :: bool
  host_keys_loaded :: "string option"
  missing_host_key_policy :: "key_policy option"
  connected :: bool
  close_calls :: nat
  close_error :: "exn option"

record paramiko_env =
  path_isfile :: "string \<Rightarrow> bool"
  load_system_host_keys_error :: "exn option"
  load_host_keys_error :: "exn option"
  connect_error :: "exn option"
  client_close_error :: "exn option"
  invoke_shell_result :: "exn + paramiko_Channel"

definition SSHClient_close :: "SSHClient \<Rightarrow> (exn + unit) \<times> SSHClient" where
  "SSHClient_close client =
     (case close_error client of
        Some e \<Rightarrow> (Inl e, client\<lparr>close_calls := Suc (close_calls client)\<rparr>)
      | None \<Rightarrow>
          (Inr (), client\<lparr>connected := False, close_calls := Suc (close_calls client)\<rparr>))"

subsection \<open>\<open>SSHChannel\<close>\<close>

text \<open>\<open>ssh_params\<close> and \<open>ssh_hostkey_args\<close> are dictionaries; the records keep the keys
  the module reads, \<open>None\<close> for a key that is not there.\<close>

record ssh_params =
  hostname :: "string option"
  port :: "int option"
  param_blocking_timeout :: "int option"
  param_keepalive :: "int option"

record ssh_hostkey_args =
  system_host_keys :: bool
  alt_host_keys :: bool
  alt_key_file :: "string option"
  ssh_strict :: bool

record SSHChannel = "paramiko_Channel Channel" +
  ssh_params :: ssh_params
  blocking_timeout :: int
  keepalive :: int
  ssh_hostkey_args :: ssh_hostkey_args
  remote_conn_pre :: "SSHClient attribute"
  use_keys :: bool
  password :: "string option"

definition SSHChannel_init ::
  "ssh_params \<Rightarrow> string \<Rightarrow> ssh_hostkey_args option \<Rightarrow> string \<Rightarrow> SessionLog option \<Rightarrow>
   bool \<Rightarrow> string option \<Rightarrow> SSHChannel" where
  "SSHChannel_init params dev hostkey_args enc slog keys pw =
     \<lparr>encoding = enc,
      session_log = slog,
      protocol = ''ssh'',
      device_type = dev,
      remote_conn = Attr None,
      ssh_params = params\<lparr>param_blocking_timeout := None, param_keepalive := None\<rparr>,
      blocking_timeout = (case param_blocking_timeout params of None \<Rightarrow> 20 | Some t \<Rightarrow> t),
      keepalive = (case param_keepalive params of None \<Rightarrow> 0 | Some k \<Rightarrow> k),
      ssh_hostkey_args =
        (case hostkey_args of
           None \<Rightarrow> \<lparr>system_host_keys = False, alt_host_keys = False, alt_key_file = None,
                     ssh_strict = False\<rparr>
         | Some a \<Rightarrow> a),
      remote_conn_pre = NoAttr,
      use_keys = keys,
      password = pw\<rparr>"

definition build_ssh_client :: "paramiko_env \<Rightarrow> bool \<Rightarrow> SSHChannel \<Rightarrow> exn + SSHClient" where
  "build_ssh_client env no_auth self =
     (let remote_conn_pre =
            \<lparr>noauth = no_auth, system_host_keys_loaded = False, host_keys_loaded = None,
             missing_host_key_policy = None, connected = False, close_calls = 0,
             close_error = client_close_error env\<rparr>;
          args = ssh_hostkey_args self;
          step1 =
            (if system_host_keys args then
               (case load_system_host_keys_error env of
                  Some e \<Rightarrow> Inl e
                | None \<Rightarrow> Inr (remote_conn_pre\<lparr>system_host_keys_loaded := True\<rparr>))
             else Inr remote_conn_pre);
          step2 =
            (case step1 of
               Inl e \<Rightarrow> Inl e
             | Inr client \<Rightarrow>
                 if alt_host_keys args then
                   (case alt_key_file args of
                      None \<Rightarrow> Inl (KeyError ''alt_key_file'')
                    | Some file \<Rightarrow>
                        if path_isfile env file then
                          (case load_host_keys_error env of
                             Some e \<Rightarrow> Inl e
                           | None \<Rightarrow> Inr (client\<lparr>host_keys_loaded := Some file\<rparr>))
                        else Inr client)
                 else Inr client)
      in (case step2 of
            Inl e \<Rightarrow> Inl e
          | Inr client \<Rightarrow>
              Inr (client\<lparr>missing_host_key_policy :=
                     Some (if \<not> ssh_strict args then AutoAddPolicy else RejectPolicy)\<rparr>)))"

text \<open>\<open>close\<close>: the client's \<open>close()\<close> in a \<open>try\<close> whose \<open>finally\<close> deletes both
  attributes; there is no \<open>except\<close>. A missing attribute raises \<open>AttributeError\<close>, and an
  exception raised in the \<open>finally\<close> block replaces the one pending from the \<open>try\<close>.\<close>

definition SSHChannel_close :: "SSHChannel \<Rightarrow> (exn + unit) \<times> SSHChannel" where
  "SSHChannel_close self =
     (let (pending, self1) =
            (case remote_conn_pre self of
               NoAttr \<Rightarrow> (Some (AttributeError ''remote_conn_pre''), self)
             | Attr client \<Rightarrow>
                 (case SSHClient_close client of
                    (Inl e, client') \<Rightarrow> (Some e, self\<lparr>remote_conn_pre := Attr client'\<rparr>)
                  | (Inr u, client') \<Rightarrow> (None, self\<lparr>remote_conn_pre := Attr client'\<rparr>)))
      in (case remote_conn self1 of
            NoAttr \<Rightarrow> (Inl (AttributeError ''remote_conn''), self1)
          | Attr c \<Rightarrow>
              (let self2 = self1\<lparr>remote_conn := NoAttr\<rparr>
               in (case remote_conn_pre self2 of
                     NoAttr \<Rightarrow> (Inl (AttributeError ''remote_conn_pre''), self2)
                   | Attr client \<Rightarrow>
                       (let self3 = self2\<lparr>remote_conn_pre := NoAttr\<rparr>
                        in (case pending of
                              Some e \<Rightarrow> (Inl e, self3)
                            | None \<Rightarrow> (Inr (), self3)))))))"

text \<open>The three messages of \<open>establish_connection\<close>; \<open>host\<close> is
  \<open>ssh_params.get("hostname")\<close>, printed as \<open>None\<close> when the key is missing, and
  \<open>port\<close> is \<open>ssh_params.get("port", 22)\<close>.\<close>

definition fmt_host :: "string option \<Rightarrow> string" where
  "fmt_host host = (case host of None \<Rightarrow> ''None'' | Some h \<Rightarrow> h)"

definition tcp_failed_msg :: "string \<Rightarrow> string option \<Rightarrow> int \<Rightarrow> string" where
  "tcp_failed_msg dev host port' =
     ''TCP connection to device failed.'' @ NL @ NL @
     ''Common causes of this problem are:'' @ NL @
     ''1. Incorrect hostname or IP address.'' @ NL @
     ''2. Wrong TCP port.'' @ NL @
     ''3. Intermediate firewall blocking access.'' @ NL @ NL @
     ''Device settings: '' @ dev @ '' '' @ fmt_host host @ '':'' @ str_int port' @ NL @ NL"

definition dns_failure_msg :: "string option \<Rightarrow> int \<Rightarrow> string" where
  "dns_failure_msg host port' =
     ''DNS failure--the hostname you provided was not resolvable in DNS: '' @
     fmt_host host @ '':'' @ str_int port'"

definition no_session_msg :: string where
  "no_session_msg =
     ''Paramiko: 'No existing session' error: '' @
     ''try increasing 'conn_timeout' to 10 seconds or larger.''"

definition auth_failed_msg :: "string \<Rightarrow> string option \<Rightarrow> int \<Rightarrow> string" where
  "auth_failed_msg dev host port' =
     ''Authentication to device failed.'' @ NL @ NL @
     ''Common causes of this problem are:'' @ NL @
     ''1. Invalid username and password'' @ NL @
     ''2. Incorrect SSH-key file'' @ NL @
     ''3. Connecting to the wrong device'' @ NL @ NL @
     ''Device settings: '' @ dev @ '' '' @ fmt_host host @ '':'' @ str_int port' @ NL @ NL"

text \<open>\<open>establish_connection\<close>. The \<open>except\<close> clauses are tried in the order of the
  source: \<open>socket.error\<close>, then \<open>SSHException\<close>, then \<open>AuthenticationException\<close>.
  \<open>width\<close> and \<open>height\<close> only reach \<open>invoke_shell\<close>, whose result the environment
  gives.\<close>

definition SSHChannel_establish_connection ::
  "paramiko_env \<Rightarrow> int \<Rightarrow> int \<Rightarrow> SSHChannel \<Rightarrow> (exn + unit) \<times> SSHChannel" where
  "SSHChannel_establish_connection env width height self0 =
     (case build_ssh_client env False self0 of
        Inl e \<Rightarrow> (Inl e, self0)
      | Inr client \<Rightarrow>
          (let self = self0\<lparr>remote_conn_pre := Attr client\<rparr>;
               host = hostname (ssh_params self);
               port' = (case port (ssh_params self) of None \<Rightarrow> 22 | Some p \<Rightarrow> p)
           in (case connect_error env of
                 Some err \<Rightarrow>
                   if isinstance_socket_error err then
                     (case SSHChannel_close self of
                        (Inl e, self') \<Rightarrow> (Inl e, self')
                      | (Inr u, self') \<Rightarrow>
                          (let msg = tcp_failed_msg (device_type self') host port';
                               msg = (if str_in ''Name or service not known'' (str_exn err)
                                      then dns_failure_msg host port' else msg);
                               msg = lstrip msg
                           in (Inl (NetmikoTimeoutException msg), self')))
                   else if isinstance_SSHException err then
                     (case SSHChannel_close self of
                        (Inl e, self') \<Rightarrow> (Inl e, self')
                      | (Inr u, self') \<Rightarrow>
                          if str_in ''No existing session'' (str_exn err)
                          then (Inl (NetmikoTimeoutException no_session_msg), self')
                          else (Inl err, self'))
                   else if isinstance_AuthenticationException err then
                     (case SSHChannel_close self of
                        (Inl e, self') \<Rightarrow> (Inl e, self')
                      | (Inr u, self') \<Rightarrow>
                          (let msg = auth_failed_msg (device_type self') host port';
                               msg = msg @ NL @ str_exn err
                           in (Inl (NetmikoAuthenticationException msg), self')))
                   else (Inl err, self)
               | None \<Rightarrow>
                   (let self = self\<lparr>remote_conn_pre := Attr (client\<lparr>connected := True\<rparr>)\<rparr>
                    in (case invoke_shell_result env of
                          Inl e \<Rightarrow> (Inl e, self)
                        | Inr chan \<Rightarrow>
                            (let chan = chan\<lparr>chan_timeout := Some (blocking_timeout self)\<rparr>;
                                 chan = (if keepalive self \<noteq> 0
                                         then chan\<lparr>transport_keepalive := Some (keepalive self)\<rparr>
                                         else chan)
                             in (Inr (), self\<lparr>remote_conn := Attr (Some chan)\<rparr>)))))))"

definition SSHChannel_login :: "SSHChannel \<Rightarrow> (exn + unit) \<times> SSHChannel" where
  "SSHChannel_login self = (Inr (), self)"

text \<open>\<open>write_channel\<close>, first as written and then under its decorator \<open>log_writes\<close>.\<close>

definition SSHChannel_write_channel_func ::
  "lib \<Rightarrow> SSHChannel \<Rightarrow> string \<Rightarrow> (exn + unit) \<times> SSHChannel" where
  "SSHChannel_write_channel_func L self out_data =
     (case remote_conn self of
        NoAttr \<Rightarrow> (Inl (AttributeError ''remote_conn''), self)
      | Attr None \<Rightarrow> (Inr (), self)
      | Attr (Some c) \<Rightarrow>
          (case write_bytes L out_data (encoding self) of
             Inl e \<Rightarrow> (Inl e, self)
           | Inr b \<Rightarrow>
               (case sendall b c of
                  (Inl e, c') \<Rightarrow> (Inl e, self\<lparr>remote_conn := Attr (Some c')\<rparr>)
                | (Inr u, c') \<Rightarrow> (Inr (), self\<lparr>remote_conn := Attr (Some c')\<rparr>))))"

definition SSHChannel_write_channel ::
  "lib \<Rightarrow> SSHChannel \<Rightarrow> string \<Rightarrow> (exn + unit) \<times> SSHChannel" where
  "SSHChannel_write_channel L = log_writes L (SSHChannel_write_channel_func L)"

text \<open>\<open>read_buffer\<close>, as written and under \<open>log_reads\<close>.\<close>

definition SSHChannel_read_buffer_func :: "lib \<Rightarrow> SSHChannel \<Rightarrow> (exn + string) \<times> SSHChannel" where
  "SSHChannel_read_buffer_func L self =
     (let output = [] in
      (case remote_conn self of
         NoAttr \<Rightarrow> (Inl (AttributeError ''remote_conn''), self)
       | Attr None \<Rightarrow> (Inr output, self)
       | Attr (Some c) \<Rightarrow>
           (case recv_ready c of
              (False, c') \<Rightarrow> (Inr output, self\<lparr>remote_conn := Attr (Some c')\<rparr>)
            | (True, c') \<Rightarrow>
                (case recv (MAX_BUFFER L) c' of
                   (Inl e, c'') \<Rightarrow> (Inl e, self\<lparr>remote_conn := Attr (Some c'')\<rparr>)
                 | (Inr outbuf, c'') \<Rightarrow>
                     if length outbuf = 0 then
                       (Inl (EOFError ''Channel stream closed by remote device.''),
                        self\<lparr>remote_conn := Attr (Some c'')\<rparr>)
                     else
                       (Inr (output @ decode_utf8_ignore L outbuf),
                        self\<lparr>remote_conn := Attr (Some c'')\<rparr>)))))"

definition SSHChannel_read_buffer :: "lib \<Rightarrow> SSHChannel \<Rightarrow> (exn + string) \<times> SSHChannel" where
  "SSHChannel_read_buffer L = log_reads (SSHChannel_read_buffer_func L)"

text \<open>What is left of the script, in polls and bytes: the measure under which the
  reading loops terminate.\<close>

fun poll_size :: "poll \<Rightarrow> nat" where
  "poll_size NotReady = 1"
| "poll_size (Ready b) = Suc (length b)"

definition unread :: "SSHChannel \<Rightarrow> nat" where
  "unread self =
     (case remote_conn self of
        Attr (Some c) \<Rightarrow> sum_list (map poll_size (incoming c))
      | _ \<Rightarrow> 0)"

lemma unread_read_buffer_func:
  assumes "SSHChannel_read_buffer_func L self = (r, self')"
  shows "unread self' \<le> unread self \<and> (\<forall>new. r = Inr new \<longrightarrow> new \<noteq> [] \<longrightarrow> unread self' < unread self)"
  using assms
  by (auto simp: SSHChannel_read_buffer_func_def unread_def recv_ready_def recv_def
           split: attribute.splits option.splits list.splits poll.splits if_splits prod.splits)

lemma unread_log_reads:
  assumes "log_reads func self = (r, self')" and "func self = (r0, self0)"
  shows "unread self' = unread self0 \<and> (\<forall>new. r = Inr new \<longrightarrow> r0 = Inr new)"
  using assms
  by (auto simp: log_reads_def unread_def split: sum.splits option.splits prod.splits)

lemma unread_read_buffer:
  assumes "SSHChannel_read_buffer L self = (r, self')"
  shows "unread self' \<le> unread self \<and> (\<forall>new. r = Inr new \<longrightarrow> new \<noteq> [] \<longrightarrow> unread self' < unread self)"
proof -
  obtain r0 self0 where f: "SSHChannel_read_buffer_func L self = (r0, self0)"
    by (cases "SSHChannel_read_buffer_func L self")
  from assms have "log_reads (SSHChannel_read_buffer_func L) self = (r, self')"
    by (simp add: SSHChannel_read_buffer_def)
  from unread_log_reads [OF this f] unread_read_buffer_func [OF f]
  show ?thesis by auto
qed

text \<open>\<open>read_channel\<close>: the \<open>while True\<close> loop, then the function under \<open>ansi_strip\<close>.\<close>

function SSHChannel_read_channel_loop ::
  "lib \<Rightarrow> string \<Rightarrow> SSHChannel \<Rightarrow> (exn + string) \<times> SSHChannel" where
  "SSHChannel_read_channel_loop L output self =
     (case SSHChannel_read_buffer L self of
        (Inl e, self') \<Rightarrow> (Inl e, self')
      | (Inr new_output, self') \<Rightarrow>
          (let output = output @ new_output
           in if new_output = [] then (Inr output, self')
              else SSHChannel_read_channel_loop L output self'))"
  by pat_completeness auto
termination
proof (relation "measure (\<lambda>(L, output, self). unread self)", goal_cases)
  case 1
  show ?case by simp
next
  case (2 L acc self r self' new acc')
  from 2 have "SSHChannel_read_buffer L self = (Inr new, self')"
    by simp
  from unread_read_buffer [OF this] 2 show ?case
    by simp
qed

declare SSHChannel_read_channel_loop.simps [simp del]

definition SSHChannel_read_channel_func :: "lib \<Rightarrow> SSHChannel \<Rightarrow> (exn + string) \<times> SSHChannel" where
  "SSHChannel_read_channel_func L self = SSHChannel_read_channel_loop L [] self"

definition SSHChannel_read_channel :: "lib \<Rightarrow> SSHChannel \<Rightarrow> (exn + string) \<times> SSHChannel" where
  "SSHChannel_read_channel L = ansi_strip L (SSHChannel_read_channel_func L)"

definition SSHChannel_read_channel_expect ::
  "lib \<Rightarrow> string \<Rightarrow> int \<Rightarrow> int \<Rightarrow> clock \<times> SSHChannel \<Rightarrow>
   ((exn + string) \<times> clock \<times> SSHChannel) option" where
  "SSHChannel_read_channel_expect L pattern timeout re_flags =
     read_channel_expect L (SSHChannel_read_buffer L) pattern timeout re_flags"

text \<open>\<open>read_channel_timing\<close>. Nothing in the loop itself bounds the number of
  iterations, so it is a partial function: \<open>None\<close> when it does not return.\<close>

definition final_delay :: rat where
  "final_delay = 2"

partial_function (option) SSHChannel_read_channel_timing_loop ::
  "lib \<Rightarrow> rat \<Rightarrow> rat \<Rightarrow> string \<Rightarrow> clock \<times> SSHChannel \<Rightarrow>
   ((exn + string) \<times> clock \<times> SSHChannel) option" where
  "SSHChannel_read_channel_timing_loop L delay_factor read_timeout channel_data ws =
     (case time_sleep (float_mul L loop_sleep_time delay_factor) (fst ws) of
        Inl e \<Rightarrow> Some (Inl e, ws)
      | Inr w1 \<Rightarrow>
          (case SSHChannel_read_channel L (snd ws) of
             (Inl e, self1) \<Rightarrow> Some (Inl e, w1, self1)
           | (Inr new_data, self1) \<Rightarrow>
               if new_data \<noteq> [] then
                 (let channel_data = channel_data @ new_data
                  in (case time_time w1 of
                        (t, w1') \<Rightarrow>
                          if t > read_timeout then Some (Inr channel_data, w1', self1)
                          else SSHChannel_read_channel_timing_loop L delay_factor read_timeout
                                 channel_data (w1', self1)))
               else
                 (case time_sleep (float_mul L final_delay delay_factor) w1 of
                    Inl e \<Rightarrow> Some (Inl e, w1, self1)
                  | Inr w2 \<Rightarrow>
                      (case SSHChannel_read_channel L self1 of
                         (Inl e, self2) \<Rightarrow> Some (Inl e, w2, self2)
                       | (Inr new_data, self2) \<Rightarrow>
                           if new_data = [] then Some (Inr channel_data, w2, self2)
                           else
                             (let channel_data = channel_data @ new_data
                              in (case time_time w2 of
                                    (t, w2') \<Rightarrow>
                                      if t > read_timeout
                                      then Some (Inr channel_data, w2', self2)
                                      else SSHChannel_read_channel_timing_loop L delay_factor
                                             read_timeout channel_data (w2', self2)))))))"

declare SSHChannel_read_channel_timing_loop.simps [code]

definition SSHChannel_read_channel_timing ::
  "lib \<Rightarrow> rat \<Rightarrow> int \<Rightarrow> clock \<times> SSHChannel \<Rightarrow> ((exn + string) \<times> clock \<times> SSHChannel) option" where
  "SSHChannel_read_channel_timing L delay_factor timeout ws =
     (case time_time (fst ws) of
        (t, w1) \<Rightarrow>
          (case float_add L t timeout of
             Inl e \<Rightarrow> Some (Inl e, w1, snd ws)
           | Inr read_timeout \<Rightarrow>
               SSHChannel_read_channel_timing_loop L delay_factor read_timeout []
                 (w1, snd ws)))"

text \<open>\<open>is_alive\<close>: a null byte through \<open>write_channel\<close>, then the transport's own
  flag; \<open>except (socket.error, EOFError)\<close>.\<close>

definition SSHChannel_is_alive :: "lib \<Rightarrow> SSHChannel \<Rightarrow> (exn + bool) \<times> SSHChannel" where
  "SSHChannel_is_alive L self =
     (let null = [CHR 0x00] in
      (case remote_conn self of
         NoAttr \<Rightarrow> (Inl (AttributeError ''remote_conn''), self)
       | Attr None \<Rightarrow> (Inr False, self)
       | Attr (Some c) \<Rightarrow>
           (case SSHChannel_write_channel L self null of
              (Inl e, self') \<Rightarrow>
                if isinstance_socket_error e \<or> isinstance_EOFError e then (Inr False, self')
                else (Inl e, self')
            | (Inr u, self') \<Rightarrow>
                (case remote_conn self' of
                   Attr (Some c') \<Rightarrow> (Inr (transport_active c'), self')
                 | Attr None \<Rightarrow> (Inl (AttributeError ''transport''), self')
                 | NoAttr \<Rightarrow> (Inl (AttributeError ''remote_conn''), self')))))"

section \<open>The remote-terminal backend\<close>

text \<open>
  \<open>telnetlib.Telnet\<close>, as the backend uses it. \<open>cooked\<close> scripts the eager reads, one
  entry per call: the bytes returned, or \<open>Closed\<close> for the \<open>EOFError\<close> of a closed
  connection; an exhausted script returns no bytes. \<open>sock\<close> is what \<open>get_socket()\<close>
  returns, \<open>None\<close> once the connection is closed.
\<close>

datatype cooked_read = Cooked bytes | Closed

record socket =
  socket_sent :: "bytes list"
  socket_sendall_error :: "exn option"

record Telnet =
  cooked :: "cooked_read list"
  telnet_written :: "bytes list"
  telnet_write_error :: "exn option"
  telnet_close_error :: "exn option"
  sock :: "socket option"

definition Telnet_close :: "Telnet \<Rightarrow> (exn + unit) \<times> Telnet" where
  "Telnet_close t =
     (case telnet_close_error t of
        Some e \<Rightarrow> (Inl e, t)
      | None \<Rightarrow> (Inr (), t\<lparr>sock := None\<rparr>))"

definition Telnet_write :: "bytes \<Rightarrow> Telnet \<Rightarrow> (exn + unit) \<times> Telnet" where
  "Telnet_write b t =
     (case telnet_write_error t of
        Some e \<Rightarrow> (Inl e, t)
      | None \<Rightarrow> (Inr (), t\<lparr>telnet_written := telnet_written t @ [b]\<rparr>))"

definition read_eager :: "Telnet \<Rightarrow> (exn + bytes) \<times> Telnet" where
  "read_eager t =
     (case cooked t of
        [] \<Rightarrow> (Inr [], t)
      | Cooked b # rest \<Rightarrow> (Inr b, t\<lparr>cooked := rest\<rparr>)
      | Closed # rest \<Rightarrow> (Inl (EOFError ''telnet connection closed''), t\<lparr>cooked := rest\<rparr>))"

definition read_very_eager :: "Telnet \<Rightarrow> (exn + bytes) \<times> Telnet" where
  "read_very_eager t =
     (case cooked t of
        [] \<Rightarrow> (Inr [], t)
      | Cooked b # rest \<Rightarrow> (Inr b, t\<lparr>cooked := rest\<rparr>)
      | Closed # rest \<Rightarrow> (Inl (EOFError ''telnet connection closed''), t\<lparr>cooked := rest\<rparr>))"

definition socket_sendall :: "bytes \<Rightarrow> socket \<Rightarrow> (exn + unit) \<times> socket" where
  "socket_sendall b sk =
     (case socket_sendall_error sk of
        Some e \<Rightarrow> (Inl e, sk)
      | None \<Rightarrow> (Inr (), sk\<lparr>socket_sent := socket_sent sk @ [b]\<rparr>))"

text \<open>\<open>TelnetChannel\<close>. Of the attributes \<open>__init__\<close> sets, the record keeps the ones the
  methods below read; establishing the connection and the login belong to
  \<open>telnetlib\<close> and to the login class, which are not modelled.\<close>

type_synonym TelnetChannel = "Telnet Channel"

definition TelnetChannel_init :: "string \<Rightarrow> string \<Rightarrow> SessionLog option \<Rightarrow> TelnetChannel" where
  "TelnetChannel_init dev enc slog =
     \<lparr>encoding = enc, session_log = slog, protocol = ''telnet'', device_type = dev,
      remote_conn = Attr None\<rparr>"

text \<open>\<open>close\<close>: \<open>try\<close> the transport's \<open>close()\<close>, \<open>except Exception: pass\<close>, and
  \<open>finally\<close> set the handle to \<open>None\<close>.\<close>

definition TelnetChannel_close :: "TelnetChannel \<Rightarrow> (exn + unit) \<times> TelnetChannel" where
  "TelnetChannel_close self =
     (let self1 =
            (case remote_conn self of
               NoAttr \<Rightarrow> self
             | Attr None \<Rightarrow> self
             | Attr (Some t) \<Rightarrow>
                 (case Telnet_close t of
                    (Inl e, t') \<Rightarrow> self\<lparr>remote_conn := Attr (Some t')\<rparr>
                  | (Inr u, t') \<Rightarrow> self\<lparr>remote_conn := Attr (Some t')\<rparr>))
      in (Inr (), self1\<lparr>remote_conn := Attr None\<rparr>))"

definition TelnetChannel_write_channel_func ::
  "lib \<Rightarrow> TelnetChannel \<Rightarrow> string \<Rightarrow> (exn + unit) \<times> TelnetChannel" where
  "TelnetChannel_write_channel_func L self out_data =
     (case remote_conn self of
        NoAttr \<Rightarrow> (Inl (AttributeError ''remote_conn''), self)
      | Attr None \<Rightarrow> (Inr (), self)
      | Attr (Some t) \<Rightarrow>
          (case write_bytes L out_data (encoding self) of
             Inl e \<Rightarrow> (Inl e, self)
           | Inr b \<Rightarrow>
               (case Telnet_write b t of
                  (Inl e, t') \<Rightarrow> (Inl e, self\<lparr>remote_conn := Attr (Some t')\<rparr>)
                | (Inr u, t') \<Rightarrow> (Inr (), self\<lparr>remote_conn := Attr (Some t')\<rparr>))))"

definition TelnetChannel_write_channel ::
  "lib \<Rightarrow> TelnetChannel \<Rightarrow> string \<Rightarrow> (exn + unit) \<times> TelnetChannel" where
  "TelnetChannel_write_channel L = log_writes L (TelnetChannel_write_channel_func L)"

definition TelnetChannel_read_buffer_func ::
  "lib \<Rightarrow> TelnetChannel \<Rightarrow> (exn + string) \<times> TelnetChannel" where
  "TelnetChannel_read_buffer_func L self =
     (case remote_conn self of
        NoAttr \<Rightarrow> (Inl (AttributeError ''remote_conn''), self)
      | Attr None \<Rightarrow> (Inl (AssertionError []), self)
      | Attr (Some t) \<Rightarrow>
          (case read_eager t of
             (Inl e, t') \<Rightarrow> (Inl e, self\<lparr>remote_conn := Attr (Some t')\<rparr>)
           | (Inr b, t') \<Rightarrow> (Inr (decode_utf8_ignore L b), self\<lparr>remote_conn := Attr (Some t')\<rparr>)))"

definition TelnetChannel_read_buffer :: "lib \<Rightarrow> TelnetChannel \<Rightarrow> (exn + string) \<times> TelnetChannel" where
  "TelnetChannel_read_buffer L = log_reads (TelnetChannel_read_buffer_func L)"

definition TelnetChannel_read_channel_func ::
  "lib \<Rightarrow> TelnetChannel \<Rightarrow> (exn + string) \<times> TelnetChannel" where
  "TelnetChannel_read_channel_func L self =
     (case remote_conn self of
        NoAttr \<Rightarrow> (Inl (AttributeError ''remote_conn''), self)
      | Attr None \<Rightarrow> (Inl (AssertionError []), self)
      | Attr (Some t) \<Rightarrow>
          (case read_very_eager t of
             (Inl e, t') \<Rightarrow> (Inl e, self\<lparr>remote_conn := Attr (Some t')\<rparr>)
           | (Inr b, t') \<Rightarrow>
               (let output = decode_utf8_ignore L b
                in (Inr output, self\<lparr>remote_conn := Attr (Some t')\<rparr>))))"

definition TelnetChannel_read_channel :: "lib \<Rightarrow> TelnetChannel \<Rightarrow> (exn + string) \<times> TelnetChannel" where
  "TelnetChannel_read_channel L = ansi_strip L (log_reads (TelnetChannel_read_channel_func L))"

definition TelnetChannel_read_channel_expect ::
  "lib \<Rightarrow> string \<Rightarrow> int \<Rightarrow> int \<Rightarrow> clock \<times> TelnetChannel \<Rightarrow>
   ((exn + string) \<times> clock \<times> TelnetChannel) option" where
  "TelnetChannel_read_channel_expect L pattern timeout re_flags =
     read_channel_expect L (TelnetChannel_read_buffer L) pattern timeout re_flags"

text \<open>\<open>read_channel_timing\<close> is \<open>pass\<close> under the comment \<open>FIX: needs implemented\<close>: it
  returns \<open>None\<close>, which the result type writes as \<open>None\<close> of an option.\<close>

definition TelnetChannel_read_channel_timing ::
  "rat \<Rightarrow> int \<Rightarrow> clock \<times> TelnetChannel \<Rightarrow> (exn + string option) \<times> clock \<times> TelnetChannel" where
  "TelnetChannel_read_channel_timing delay_factor timeout ws = (Inr None, ws)"

text \<open>\<open>is_alive\<close>: \<open>IAC + NOP\<close> three times on the socket of the transport;
  \<open>except AttributeError\<close>.\<close>

definition IAC_NOP :: bytes where
  "IAC_NOP = [CHR 0xFF, CHR 0xF1]"

definition TelnetChannel_is_alive :: "TelnetChannel \<Rightarrow> (exn + bool) \<times> TelnetChannel" where
  "TelnetChannel_is_alive self =
     (case remote_conn self of
        NoAttr \<Rightarrow> (Inl (AttributeError ''remote_conn''), self)
      | Attr None \<Rightarrow> (Inr False, self)
      | Attr (Some t) \<Rightarrow>
          (case sock t of
             None \<Rightarrow> (Inr False, self)
           | Some sk \<Rightarrow>
               (let put = (\<lambda>sk'. self\<lparr>remote_conn := Attr (Some (t\<lparr>sock := Some sk'\<rparr>))\<rparr>);
                    caught = (\<lambda>e s. if isinstance_AttributeError e then (Inr False, s)
                                     else (Inl e, s))
                in (case socket_sendall IAC_NOP sk of
                      (Inl e, sk1) \<Rightarrow> caught e (put sk1)
                    | (Inr u, sk1) \<Rightarrow>
                        (case socket_sendall IAC_NOP sk1 of
                           (Inl e, sk2) \<Rightarrow> caught e (put sk2)
                         | (Inr u, sk2) \<Rightarrow>
                             (case socket_sendall IAC_NOP sk2 of
                                (Inl e, sk3) \<Rightarrow> caught e (put sk3)
                              | (Inr u, sk3) \<Rightarrow> (Inr True, put sk3)))))))"

section \<open>The serial backend\<close>

text \<open>\<open>serial.Serial\<close>: \<open>waiting\<close> scripts the line, one entry per \<open>read\<close>;
  \<open>in_waiting\<close> is the length of the head entry.\<close>

record Serial =
  waiting :: "bytes list"
  serial_written :: "bytes list"
  serial_write_error :: "exn option"
  serial_close_error :: "exn option"
  is_open :: bool

definition Serial_close :: "Serial \<Rightarrow> (exn + unit) \<times> Serial" where
  "Serial_close c =
     (case serial_close_error c of
        Some e \<Rightarrow> (Inl e, c)
      | None \<Rightarrow> (Inr (), c\<lparr>is_open := False\<rparr>))"

definition Serial_write :: "bytes \<Rightarrow> Serial \<Rightarrow> (exn + unit) \<times> Serial" where
  "Serial_write b c =
     (case serial_write_error c of
        Some e \<Rightarrow> (Inl e, c)
      | None \<Rightarrow> (Inr (), c\<lparr>serial_written := serial_written c @ [b]\<rparr>))"

type_synonym SerialChannel = "Serial Channel"

definition SerialChannel_init :: "string \<Rightarrow> string \<Rightarrow> SessionLog option \<Rightarrow> SerialChannel" where
  "SerialChannel_init dev enc slog =
     \<lparr>encoding = enc, session_log = slog, protocol = ''serial'', device_type = dev,
      remote_conn = Attr None\<rparr>"

text \<open>\<open>close\<close>: \<open>try\<close> and \<open>finally\<close>, without an \<open>except\<close>.\<close>

definition SerialChannel_close :: "SerialChannel \<Rightarrow> (exn + unit) \<times> SerialChannel" where
  "SerialChannel_close self =
     (case remote_conn self of
        NoAttr \<Rightarrow> (Inl (AttributeError ''remote_conn''), self\<lparr>remote_conn := Attr None\<rparr>)
      | Attr None \<Rightarrow> (Inr (), self\<lparr>remote_conn := Attr None\<rparr>)
      | Attr (Some c) \<Rightarrow>
          (case Serial_close c of
             (Inl e, c') \<Rightarrow> (Inl e, self\<lparr>remote_conn := Attr None\<rparr>)
           | (Inr u, c') \<Rightarrow> (Inr (), self\<lparr>remote_conn := Attr None\<rparr>)))"

definition SerialChannel_write_channel_func ::
  "lib \<Rightarrow> SerialChannel \<Rightarrow> string \<Rightarrow> (exn + unit) \<times> SerialChannel" where
  "SerialChannel_write_channel_func L self out_data =
     (case remote_conn self of
        NoAttr \<Rightarrow> (Inl (AttributeError ''remote_conn''), self)
      | Attr None \<Rightarrow> (Inr (), self)
      | Attr (Some c) \<Rightarrow>
          (case write_bytes L out_data (encoding self) of
             Inl e \<Rightarrow> (Inl e, self)
           | Inr b \<Rightarrow>
               (case Serial_write b c of
                  (Inl e, c') \<Rightarrow> (Inl e, self\<lparr>remote_conn := Attr (Some c')\<rparr>)
                | (Inr u, c') \<Rightarrow> (Inr (), self\<lparr>remote_conn := Attr (Some c')\<rparr>))))"

definition SerialChannel_write_channel ::
  "lib \<Rightarrow> SerialChannel \<Rightarrow> string \<Rightarrow> (exn + unit) \<times> SerialChannel" where
  "SerialChannel_write_channel L = log_writes L (SerialChannel_write_channel_func L)"

definition SerialChannel_read_buffer :: "SerialChannel \<Rightarrow> (exn + string) \<times> SerialChannel" where
  "SerialChannel_read_buffer self = (Inr [], self)"

text \<open>\<open>read_channel\<close>: while bytes are waiting, read them all and decode them.\<close>

fun Serial_drain :: "lib \<Rightarrow> string \<Rightarrow> bytes list \<Rightarrow> string \<times> bytes list" where
  "Serial_drain L output [] = (output, [])"
| "Serial_drain L output (b # rest) =
     (if length b > 0 then Serial_drain L (output @ decode_utf8_ignore L b) rest
      else (output, b # rest))"

definition SerialChannel_read_channel_func ::
  "lib \<Rightarrow> SerialChannel \<Rightarrow> (exn + string) \<times> SerialChannel" where
  "SerialChannel_read_channel_func L self =
     (let output = [] in
      (case remote_conn self of
         NoAttr \<Rightarrow> (Inl (AttributeError ''remote_conn''), self)
       | Attr None \<Rightarrow> (Inr output, self)
       | Attr (Some c) \<Rightarrow>
           (case Serial_drain L output (waiting c) of
              (output, rest) \<Rightarrow>
                (Inr output, self\<lparr>remote_conn := Attr (Some (c\<lparr>waiting := rest\<rparr>))\<rparr>))))"

definition SerialChannel_read_channel :: "lib \<Rightarrow> SerialChannel \<Rightarrow> (exn + string) \<times> SerialChannel" where
  "SerialChannel_read_channel L = ansi_strip L (log_reads (SerialChannel_read_channel_func L))"

text \<open>\<open>read_channel_expect\<close>, \<open>read_channel_timing\<close> and \<open>is_alive\<close> are \<open>pass\<close> under
  \<open>FIX: needs implemented\<close>: each returns \<open>None\<close>.\<close>

definition SerialChannel_read_channel_expect ::
  "string \<Rightarrow> int \<Rightarrow> int \<Rightarrow> clock \<times> SerialChannel \<Rightarrow>
   (exn + string option) \<times> clock \<times> SerialChannel" where
  "SerialChannel_read_channel_expect pattern timeout re_flags ws = (Inr None, ws)"

definition SerialChannel_read_channel_timing ::
  "rat \<Rightarrow> int \<Rightarrow> clock \<times> SerialChannel \<Rightarrow> (exn + string option) \<times> clock \<times> SerialChannel" where
  "SerialChannel_read_channel_timing delay_factor timeout ws = (Inr None, ws)"

definition SerialChannel_is_alive :: "SerialChannel \<Rightarrow> (exn + bool option) \<times> SerialChannel" where
  "SerialChannel_is_alive self = (Inr None, self)"

section \<open>Successive polls\<close>

text \<open>\<open>polled read_buffer n self\<close>: \<open>read_buffer\<close> called \<open>n\<close> times in a row, starting
  from the object \<open>self\<close>. The result is the text of the \<open>n\<close> polls, concatenated, with
  the object as the last poll leaves it, or the exception of the first poll that
  raises. The theorems about \<open>read_channel_expect\<close> are stated with it.\<close>

fun polled :: "('s \<Rightarrow> (exn + string) \<times> 's) \<Rightarrow> nat \<Rightarrow> 's \<Rightarrow> (exn + string) \<times> 's" where
  "polled read_buffer 0 self = (Inr [], self)"
| "polled read_buffer (Suc n) self =
     (case polled read_buffer n self of
        (Inl e, self') \<Rightarrow> (Inl e, self')
      | (Inr buf, self') \<Rightarrow>
          (case read_buffer self' of
             (Inl e, self'') \<Rightarrow> (Inl e, self'')
           | (Inr new, self'') \<Rightarrow> (Inr (buf @ new), self'')))"

text \<open>A secure-shell channel whose reads cannot raise: the handle is there, no \<open>recv\<close>
  will return an empty answer, and the session log accepts writes.\<close>

definition readable :: "lib \<Rightarrow> SSHChannel \<Rightarrow> bool" where
  "readable L self =
     (0 < MAX_BUFFER L \<and>
      (case remote_conn self of
         NoAttr \<Rightarrow> False
       | Attr None \<Rightarrow> True
       | Attr (Some c) \<Rightarrow> Ready [] \<notin> set (incoming c)) \<and>
      (case session_log self of
         None \<Rightarrow> True
       | Some sl \<Rightarrow> write_error sl = None))"

section \<open>An instance of the imported functions\<close>

text \<open>
  Modelled from the spec: \<open>strip_ansi_escape_codes\<close> of \<open>netmiko.utilities\<close> is not among
  the sources; the spec says of it that it strips terminal control sequences from
  text. \<open>strip_control_sequences\<close> removes every complete control sequence, that is
  \<open>ESC [\<close>, any number of parameter and intermediate bytes (\<open>0x20\<close> to \<open>0x3F\<close>) and one
  final byte (\<open>0x40\<close> to \<open>0x7E\<close>), and keeps every other character.
\<close>

definition is_csi_parameter :: "char \<Rightarrow> bool" where
  "is_csi_parameter c = (0x20 \<le> (of_char c :: nat) \<and> (of_char c :: nat) \<le> 0x3F)"

definition is_csi_final :: "char \<Rightarrow> bool" where
  "is_csi_final c = (0x40 \<le> (of_char c :: nat) \<and> (of_char c :: nat) \<le> 0x7E)"

fun csi_tail :: "string \<Rightarrow> string option" where
  "csi_tail [] = None"
| "csi_tail (c # cs) =
     (if is_csi_parameter c then csi_tail cs
      else if is_csi_final c then Some cs
      else None)"

lemma csi_tail_shorter: "csi_tail s = Some t \<Longrightarrow> length t < length s"
  by (induction s) (auto split: if_splits)

definition control_sequence :: "string \<Rightarrow> string option" where
  "control_sequence s =
     (case s of
        c # d # ds \<Rightarrow> if c = CHR 0x1B \<and> d = CHR ''['' then csi_tail ds else None
      | _ \<Rightarrow> None)"

lemma control_sequence_shorter: "control_sequence s = Some t \<Longrightarrow> length t < length s"
  by (auto simp: control_sequence_def split: list.splits if_splits dest: csi_tail_shorter)

function strip_control_sequences :: "string \<Rightarrow> string" where
  "strip_control_sequences [] = []"
| "strip_control_sequences (c # cs) =
     (case control_sequence (c # cs) of
        Some rest \<Rightarrow> strip_control_sequences rest
      | None \<Rightarrow> c # strip_control_sequences cs)"
  by pat_completeness auto
termination
  by (relation "measure length") (auto dest: control_sequence_shorter)

text \<open>
  Modelled from the spec: \<open>write_bytes\<close> of \<open>netmiko.utilities\<close> is not among the
  sources; the spec says that \<open>write_channel\<close> encodes the text with the configured
  encoding and writes it verbatim. On plain ASCII text every such encoding gives the
  characters themselves as bytes; \<open>write_bytes_ascii\<close> gives these and leaves out any
  other character.
\<close>

definition is_ascii :: "char \<Rightarrow> bool" where
  "is_ascii c = ((of_char c :: nat) < 0x80)"

definition write_bytes_ascii :: "string \<Rightarrow> string \<Rightarrow> exn + bytes" where
  "write_bytes_ascii out_data enc = Inr (filter is_ascii out_data)"

text \<open>
  Python's own functions, on plain ASCII text and for a pattern made of literal
  characters: there \<open>re.search\<close> finds the pattern exactly when it occurs in the text,
  and decoding bytes as UTF-8 gives the characters back. The sums and products of
  floats in the examples are floats again, so that nothing is rounded. \<open>ascii_lib\<close> is
  the instance the examples are evaluated with; the general theorems do not mention
  it.
\<close>

definition ascii_lib :: lib where
  "ascii_lib =
     \<lparr>strip_ansi_escape_codes = strip_control_sequences,
      re_search = (\<lambda>pattern s flags. Inr (str_in pattern s)),
      write_bytes = write_bytes_ascii,
      decode_utf8_ignore = filter is_ascii,
      MAX_BUFFER = 65535,
      float_add = (\<lambda>t n. Inr (t + of_int n)),
      float_mul = (\<lambda>x y. x * y)\<rparr>"

text \<open>A secure-shell channel with an open shell, a session log that records writes,
  and the device's script \<open>script\<close>.\<close>

definition example_log :: SessionLog where
  "example_log = \<lparr>fin = False, record_writes = True, written = [], write_error = None\<rparr>"

definition example_shell :: "poll list \<Rightarrow> paramiko_Channel" where
  "example_shell script =
     \<lparr>incoming = script, sent = [], sendall_error = None, loopback = False,
      transport_active = True, chan_timeout = Some 20, transport_keepalive = None\<rparr>"

definition example_params :: ssh_params where
  "example_params =
     \<lparr>hostname = Some ''router1'', port = None, param_blocking_timeout = None,
      param_keepalive = None\<rparr>"

definition example_ssh :: "paramiko_Channel \<Rightarrow> SSHChannel" where
  "example_ssh shell =
     (SSHChannel_init example_params ''cisco_ios'' None ''ascii'' (Some example_log) False None)
       \<lparr>remote_conn := Attr (Some shell)\<rparr>"

text \<open>The channel after \<open>data\<close> has been appended to its session log, if it has
  one.\<close>

definition logged :: "string \<Rightarrow> ('c, 'a) Channel_scheme \<Rightarrow> ('c, 'a) Channel_scheme" where
  "logged data self =
     self\<lparr>session_log :=
            (case session_log self of
               None \<Rightarrow> None
             | Some sl \<Rightarrow> Some (sl\<lparr>written := written sl @ [data]\<rparr>))\<rparr>"

text \<open>An environment in which the connection is refused.\<close>

definition refusing_env :: paramiko_env where
  "refusing_env =
     \<lparr>path_isfile = (\<lambda>file. False),
      load_system_host_keys_error = None,
      load_host_keys_error = None,
      connect_error = Some (socket_error ''[Errno 111] Connection refused''),
      client_close_error = None,
      invoke_shell_result = Inl (SSHException ''SSH session not active'')\<rparr>"

text \<open>A wall clock that shows \<open>start\<close> at the first call of \<open>time.time()\<close> and
  \<open>step\<close> seconds more at each call after it; no call has been made yet.\<close>

definition example_clock :: "rat \<Rightarrow> rat \<Rightarrow> clock" where
  "example_clock start step =
     \<lparr>time_calls = 0, wall_clock = (\<lambda>n. start + of_nat n * step), slept = []\<rparr>"

section \<open>What a read after a write collects\<close>



section \<open>A second instance: two encodings\<close>

text \<open>
  Python's \<open>bytes.decode("utf-8", "ignore")\<close> on the bytes of characters below 256:
  a byte below \<open>0x80\<close> is its character; \<open>0xC2\<close> or \<open>0xC3\<close> followed by a continuation
  byte is one character; any other byte stands in no well-formed sequence of such
  characters and is left out, as is a lead byte at the end of the input.
\<close>

definition is_continuation :: "char \<Rightarrow> bool" where
  "is_continuation c = (0x80 \<le> (of_char c :: nat) \<and> (of_char c :: nat) < 0xC0)"

fun utf8_decode_ignore :: "bytes \<Rightarrow> string" where
  "utf8_decode_ignore [] = []"
| "utf8_decode_ignore [c] = (if is_ascii c then [c] else [])"
| "utf8_decode_ignore (c # d # ds) =
     (if is_ascii c then c # utf8_decode_ignore (d # ds)
      else if (c = CHR 0xC2 \<or> c = CHR 0xC3) \<and> is_continuation d
      then char_of (((of_char c :: nat) - 0xC2) * 64 + of_char d) # utf8_decode_ignore ds
      else utf8_decode_ignore (d # ds))"






section \<open>Properties of \<open>read_channel_expect\<close>\<close>

lemma polled_Suc_Inr:
  assumes "polled rb (Suc n) self = (Inr buf, s)"
  obtains b0 s0 new where "polled rb n self = (Inr b0, s0)" and "rb s0 = (Inr new, s)" and "buf = b0 @ new"
  using assms by (auto split: prod.splits sum.splits)

lemma loop_sleep_time_nonneg: "\<not> loop_sleep_time < 0"
  by (simp add: loop_sleep_time_def)

lemma expect_loop_unfold_continue:
  assumes "rb s0 = (Inr new, s)" and "re_search L pattern (b0 @ new) flags = Inr False"
    and "\<not> wall_clock w (time_calls w) > rt"
  shows "read_channel_expect_loop L rb pattern flags rt b0 (w, s0) =
         read_channel_expect_loop L rb pattern flags rt (b0 @ new)
           (w\<lparr>time_calls := Suc (time_calls w), slept := slept w @ [loop_sleep_time]\<rparr>, s)"
  using assms
  by (subst read_channel_expect_loop.simps)
     (simp add: time_time_def time_sleep_def loop_sleep_time_nonneg)

lemma expect_loop_skip:
  assumes "polled rb n self = (Inr buf, s)"
    and "\<forall>j. 1 \<le> j \<and> j \<le> n \<longrightarrow> (\<exists>b s'. polled rb j self = (Inr b, s') \<and> re_search L pattern b flags = Inr False)"
    and "\<forall>j<n. \<not> wall_clock w (time_calls w + j) > rt"
  shows "read_channel_expect_loop L rb pattern flags rt [] (w, self) =
         read_channel_expect_loop L rb pattern flags rt buf
           (w\<lparr>time_calls := time_calls w + n, slept := slept w @ replicate n loop_sleep_time\<rparr>, s)"
  using assms
proof (induction n arbitrary: buf s)
  case 0
  then show ?case by simp
next
  case (Suc n)
  let ?w = "w\<lparr>time_calls := time_calls w + n, slept := slept w @ replicate n loop_sleep_time\<rparr>"
  from Suc.prems(1) obtain b0 s0 new where
    p: "polled rb n self = (Inr b0, s0)" and r: "rb s0 = (Inr new, s)" and b: "buf = b0 @ new"
    by (rule polled_Suc_Inr)
  have IH: "read_channel_expect_loop L rb pattern flags rt [] (w, self) =
         read_channel_expect_loop L rb pattern flags rt b0 (?w, s0)"
    using Suc.IH [OF p] Suc.prems(2,3) by simp
  from Suc.prems(2) Suc.prems(1) have nm: "re_search L pattern (b0 @ new) flags = Inr False"
    unfolding b by (metis Suc_le_eq zero_less_Suc One_nat_def le_refl Pair_inject sum.inject(2))
  from Suc.prems(3) have t: "\<not> wall_clock ?w (time_calls ?w) > rt"
    by simp
  show ?case
    unfolding IH b
    by (subst expect_loop_unfold_continue [where rb = rb and ?s0.0 = s0, OF r nm t])
       (simp add: replicate_append_same)
qed

lemma expect_loop_last:
  assumes "polled rb (Suc k) self = (Inr buf, self')"
    and "\<forall>j. 1 \<le> j \<and> j \<le> k \<longrightarrow> (\<exists>b s'. polled rb j self = (Inr b, s') \<and> re_search L pattern b flags = Inr False)"
    and "\<forall>j<k. \<not> wall_clock w (time_calls w + j) > rt"
  shows "read_channel_expect_loop L rb pattern flags rt [] (w, self) =
     (let w' = w\<lparr>time_calls := time_calls w + k, slept := slept w @ replicate k loop_sleep_time\<rparr> in
      case re_search L pattern buf flags of
        Inl e \<Rightarrow> Some (Inl e, w', self')
      | Inr found \<Rightarrow>
          if found then Some (Inr (strip_ansi_escape_codes L buf), w', self')
          else if wall_clock w (time_calls w + k) > rt then
            Some (Inl (NetmikoTimeoutException
                    (pattern_timeout_msg pattern (strip_ansi_escape_codes L buf))),
                  w'\<lparr>time_calls := Suc (time_calls w + k)\<rparr>, self')
          else read_channel_expect_loop L rb pattern flags rt buf
                 (w'\<lparr>time_calls := Suc (time_calls w + k),
                     slept := slept w @ replicate (Suc k) loop_sleep_time\<rparr>, self'))"
proof -
  from assms(1) obtain b0 s0 new where
    p: "polled rb k self = (Inr b0, s0)" and r: "rb s0 = (Inr new, self')" and b: "buf = b0 @ new"
    by (rule polled_Suc_Inr)
  note skip = expect_loop_skip [OF p assms(2) assms(3)]
  show ?thesis
    unfolding skip b
    by (subst read_channel_expect_loop.simps)
       (simp add: r time_time_def time_sleep_def loop_sleep_time_nonneg Let_def
          replicate_append_same split: sum.splits)
qed

lemma read_channel_expect_unfold:
  assumes "float_add L (wall_clock w (time_calls w)) timeout = Inr read_timeout"
  shows "read_channel_expect L rb pattern timeout flags (w, self) =
         read_channel_expect_loop L rb pattern flags read_timeout []
           (w\<lparr>time_calls := Suc (time_calls w)\<rparr>, self)"
  using assms by (simp add: read_channel_expect_def time_time_def)

text \<open>
  Claim C1. \<open>read_channel_expect\<close> returns at the first poll at which \<open>re.search\<close>
  finds the pattern in the accumulated text, for every pattern, timeout and flags and
  every backend poll \<open>read_buffer\<close>. The deadline \<open>read_timeout\<close> is the float sum of
  the first reading of the clock and the timeout. The polls 1 to \<open>k\<close> return without
  a match, and the reading of the clock made after each of them is not past the
  deadline; the poll \<open>k + 1\<close> returns and the accumulated text \<open>buf\<close> matches. Then the
  call returns \<open>buf\<close> with the control sequences stripped; the channel is as the poll
  \<open>k + 1\<close> left it, so that nothing is read after the match; the clock has been read
  once for the deadline and once after each poll without a match, and the call has
  slept \<open>k\<close> times, each time for \<open>loop_sleep_time\<close>, and not after the match.
\<close>

theorem read_channel_expect_returns_at_first_match:
  assumes "polled read_buffer (Suc k) self = (Inr buf, self')"
    and "\<forall>j. 1 \<le> j \<and> j \<le> k \<longrightarrow>
           (\<exists>b s. polled read_buffer j self = (Inr b, s) \<and> re_search L pattern b re_flags = Inr False)"
    and "float_add L (wall_clock w (time_calls w)) timeout = Inr read_timeout"
    and "\<forall>j. 1 \<le> j \<and> j \<le> k \<longrightarrow> \<not> wall_clock w (time_calls w + j) > read_timeout"
    and "re_search L pattern buf re_flags = Inr True"
  shows "read_channel_expect L read_buffer pattern timeout re_flags (w, self) =
         Some (Inr (strip_ansi_escape_codes L buf),
               w\<lparr>time_calls := time_calls w + 1 + k,
                  slept := slept w @ replicate k loop_sleep_time\<rparr>,
               self')"
proof -
  let ?w1 = "w\<lparr>time_calls := Suc (time_calls w)\<rparr>"
  have t: "\<forall>j<k. \<not> wall_clock ?w1 (time_calls ?w1 + j) > read_timeout"
    using assms(4) by (auto simp: less_eq_Suc_le)
  show ?thesis
    unfolding read_channel_expect_unfold [OF assms(3)]
    using expect_loop_last [OF assms(1) assms(2) t] assms(5)
    by (simp add: Let_def)
qed

lemma startswith_append: "startswith (x @ b) x"
  by (induction x) auto

lemma str_in_here: "str_in x (x @ b)"
  by (cases "x @ b") (auto simp: startswith_append simp del: startswith.simps dest: sym)

lemma str_in_append: "str_in x (a @ x @ b)"
  by (induction a) (auto simp: str_in_here)

lemma pattern_timeout_msg_pattern: "str_in pattern (pattern_timeout_msg pattern output)"
  unfolding pattern_timeout_msg_def
  using str_in_append [of pattern "NL @ NL @ ''Timed-out reading channel, pattern not found in output: ''"
      "NL @ ''Data retrieved before timeout:'' @ NL @ NL @ output @ NL @ NL"]
  by simp

lemma pattern_timeout_msg_output: "str_in output (pattern_timeout_msg pattern output)"
  unfolding pattern_timeout_msg_def
  using str_in_append [of "output" "NL @ NL @ ''Timed-out reading channel, pattern not found in output: '' @ pattern @ NL @
     ''Data retrieved before timeout:'' @ NL @ NL" "NL @ NL"]
  by simp

text \<open>
  Claim C2. When the deadline passes before the pattern is found,
  \<open>read_channel_expect\<close> raises \<open>NetmikoTimeoutException\<close>, and the message contains
  the pattern and the accumulated text with the control sequences stripped. None of
  the polls 1 to \<open>k + 1\<close> gives a match; the readings of the clock made after the
  polls 1 to \<open>k\<close> are not past the deadline, and the reading made after the poll
  \<open>k + 1\<close> is past it. The clock has then been read \<open>k + 2\<close> times, and the call
  has slept \<open>k\<close> times.
\<close>

theorem read_channel_expect_pattern_timeout:
  assumes "polled read_buffer (Suc k) self = (Inr buf, self')"
    and "\<forall>j. 1 \<le> j \<and> j \<le> Suc k \<longrightarrow>
           (\<exists>b s. polled read_buffer j self = (Inr b, s) \<and> re_search L pattern b re_flags = Inr False)"
    and "float_add L (wall_clock w (time_calls w)) timeout = Inr read_timeout"
    and "\<forall>j. 1 \<le> j \<and> j \<le> k \<longrightarrow> \<not> wall_clock w (time_calls w + j) > read_timeout"
    and "wall_clock w (time_calls w + Suc k) > read_timeout"
  shows "read_channel_expect L read_buffer pattern timeout re_flags (w, self) =
           Some (Inl (NetmikoTimeoutException
                  (pattern_timeout_msg pattern (strip_ansi_escape_codes L buf))),
                 w\<lparr>time_calls := time_calls w + 2 + k,
                    slept := slept w @ replicate k loop_sleep_time\<rparr>,
                 self') \<and>
         str_in pattern (pattern_timeout_msg pattern (strip_ansi_escape_codes L buf)) \<and>
         str_in (strip_ansi_escape_codes L buf)
           (pattern_timeout_msg pattern (strip_ansi_escape_codes L buf))"
proof -
  let ?w1 = "w\<lparr>time_calls := Suc (time_calls w)\<rparr>"
  from assms(2) have earlier: "\<forall>j. 1 \<le> j \<and> j \<le> k \<longrightarrow>
           (\<exists>b s. polled read_buffer j self = (Inr b, s) \<and> re_search L pattern b re_flags = Inr False)"
    by auto
  from assms(2) assms(1) have nm: "re_search L pattern buf re_flags = Inr False"
    by (metis Suc_le_eq zero_less_Suc One_nat_def le_refl Pair_inject sum.inject(2))
  have t: "\<forall>j<k. \<not> wall_clock ?w1 (time_calls ?w1 + j) > read_timeout"
    using assms(4) by (auto simp: less_eq_Suc_le)
  have "read_channel_expect L read_buffer pattern timeout re_flags (w, self) =
           Some (Inl (NetmikoTimeoutException
                  (pattern_timeout_msg pattern (strip_ansi_escape_codes L buf))),
                 w\<lparr>time_calls := time_calls w + 2 + k,
                    slept := slept w @ replicate k loop_sleep_time\<rparr>,
                 self')"
    unfolding read_channel_expect_unfold [OF assms(3)]
    using expect_loop_last [OF assms(1) earlier t] assms(5) nm
    by (simp add: Let_def)
  then show ?thesis
    by (simp add: pattern_timeout_msg_pattern pattern_timeout_msg_output)
qed

text \<open>
  Claim C9. In every iteration the pattern is tested before the deadline. The poll
  \<open>k + 1\<close> is made when the deadline has passed: the clock, read after that poll,
  shows a time past the deadline, while the readings made after the polls 1 to \<open>k\<close> do
  not. What the call does is decided by the pattern test alone: if the accumulated
  text matches, the call returns it, stripped, and does not read the clock; the
  timeout is raised only if the text does not match; and what \<open>re.search\<close> raises is
  raised.
\<close>

theorem read_channel_expect_pattern_test_first:
  assumes "polled read_buffer (Suc k) self = (Inr buf, self')"
    and "\<forall>j. 1 \<le> j \<and> j \<le> k \<longrightarrow>
           (\<exists>b s. polled read_buffer j self = (Inr b, s) \<and> re_search L pattern b re_flags = Inr False)"
    and "float_add L (wall_clock w (time_calls w)) timeout = Inr read_timeout"
    and "\<forall>j. 1 \<le> j \<and> j \<le> k \<longrightarrow> \<not> wall_clock w (time_calls w + j) > read_timeout"
    and "wall_clock w (time_calls w + Suc k) > read_timeout"
  shows "read_channel_expect L read_buffer pattern timeout re_flags (w, self) =
           (case re_search L pattern buf re_flags of
              Inr found \<Rightarrow>
                if found then
                  Some (Inr (strip_ansi_escape_codes L buf),
                        w\<lparr>time_calls := time_calls w + 1 + k,
                           slept := slept w @ replicate k loop_sleep_time\<rparr>,
                        self')
                else
                  Some (Inl (NetmikoTimeoutException
                         (pattern_timeout_msg pattern (strip_ansi_escape_codes L buf))),
                        w\<lparr>time_calls := time_calls w + 2 + k,
                           slept := slept w @ replicate k loop_sleep_time\<rparr>,
                        self')
            | Inl e \<Rightarrow>
                Some (Inl e,
                      w\<lparr>time_calls := time_calls w + 1 + k,
                         slept := slept w @ replicate k loop_sleep_time\<rparr>,
                      self'))"
proof -
  let ?w1 = "w\<lparr>time_calls := Suc (time_calls w)\<rparr>"
  have t: "\<forall>j<k. \<not> wall_clock ?w1 (time_calls ?w1 + j) > read_timeout"
    using assms(4) by (auto simp: less_eq_Suc_le)
  show ?thesis
    unfolding read_channel_expect_unfold [OF assms(3)]
    using expect_loop_last [OF assms(1) assms(2) t] assms(5)
    by (simp add: Let_def split: sum.splits)
qed

lemmas example_eval =
  SSHChannel_read_buffer_def SSHChannel_read_buffer_func_def log_reads_def
  recv_ready_def recv_def SessionLog_write_def ascii_lib_def example_ssh_def
  example_shell_def example_log_def SSHChannel_init_def is_ascii_def
  control_sequence_def is_csi_parameter_def is_csi_final_def write_bytes_ascii_def

theorem read_channel_expect_returns_at_first_match_witness:
  "read_channel_expect ascii_lib (SSHChannel_read_buffer ascii_lib) ''login:'' 5 0
     (example_clock 1000 (1 / 4),
      example_ssh (example_shell
        [Ready ([CHR 0x1B] @ ''[2Klog''), NotReady, Ready ''in: '', Ready ''more''])) =
   Some (Inr ''login: '',
    (example_clock 1000 (1 / 4))\<lparr>time_calls := 3, slept := [loop_sleep_time, loop_sleep_time]\<rparr>,
    (example_ssh (example_shell [Ready ''more'']))
      \<lparr>session_log :=
         Some (example_log\<lparr>written := [[CHR 0x1B] @ ''[2Klog'', [], ''in: '']\<rparr>)\<rparr>)"
proof -
  let ?rb = "SSHChannel_read_buffer ascii_lib"
  let ?w = "example_clock 1000 (1 / 4)"
  let ?ch = "example_ssh (example_shell
        [Ready ([CHR 0x1B] @ ''[2Klog''), NotReady, Ready ''in: '', Ready ''more''])"
  let ?ch' = "(example_ssh (example_shell [Ready ''more'']))
      \<lparr>session_log :=
         Some (example_log\<lparr>written := [[CHR 0x1B] @ ''[2Klog'', [], ''in: '']\<rparr>)\<rparr>"
  have p1: "polled ?rb (Suc 0) ?ch = (Inr ([CHR 0x1B] @ ''[2Klog''), 
      (example_ssh (example_shell [NotReady, Ready ''in: '', Ready ''more'']))
      \<lparr>session_log := Some (example_log\<lparr>written := [[CHR 0x1B] @ ''[2Klog'']\<rparr>)\<rparr>)"
    by (simp add: example_eval)
  have p2: "polled ?rb (Suc (Suc 0)) ?ch = (Inr ([CHR 0x1B] @ ''[2Klog''), 
      (example_ssh (example_shell [Ready ''in: '', Ready ''more'']))
      \<lparr>session_log := Some (example_log\<lparr>written := [[CHR 0x1B] @ ''[2Klog'', []]\<rparr>)\<rparr>)"
    by (simp add: example_eval)
  have p3: "polled ?rb (Suc (Suc (Suc 0))) ?ch = (Inr ([CHR 0x1B] @ ''[2Klogin: ''), ?ch')"
    by (simp add: example_eval)
  have nm: "\<forall>j. 1 \<le> j \<and> j \<le> Suc (Suc 0) \<longrightarrow>
           (\<exists>b s. polled ?rb j ?ch = (Inr b, s) \<and> re_search ascii_lib ''login:'' b 0 = Inr False)"
  proof (intro allI impI)
    fix j :: nat assume "1 \<le> j \<and> j \<le> Suc (Suc 0)"
    then have "j = Suc 0 \<or> j = Suc (Suc 0)" by arith
    then show "\<exists>b s. polled ?rb j ?ch = (Inr b, s) \<and> re_search ascii_lib ''login:'' b 0 = Inr False"
    proof
      assume "j = Suc 0"
      then show ?thesis unfolding p1 \<open>j = Suc 0\<close> by (simp add: ascii_lib_def)
    next
      assume "j = Suc (Suc 0)"
      then show ?thesis unfolding p2 \<open>j = Suc (Suc 0)\<close> by (simp add: ascii_lib_def)
    qed
  qed
  have d: "float_add ascii_lib (wall_clock ?w (time_calls ?w)) 5 = Inr 1005"
    by (simp add: ascii_lib_def example_clock_def)
  have t: "\<forall>j. 1 \<le> j \<and> j \<le> Suc (Suc 0) \<longrightarrow> \<not> wall_clock ?w (time_calls ?w + j) > 1005"
  proof (intro allI impI)
    fix j :: nat assume "1 \<le> j \<and> j \<le> Suc (Suc 0)"
    then have "j = Suc 0 \<or> j = Suc (Suc 0)" by arith
    then show "\<not> wall_clock ?w (time_calls ?w + j) > 1005"
      by (auto simp: example_clock_def)
  qed
  have m: "re_search ascii_lib ''login:'' ([CHR 0x1B] @ ''[2Klogin: '') 0 = Inr True"
    by (simp add: ascii_lib_def)
  have s: "strip_ansi_escape_codes ascii_lib ([CHR 0x1B] @ ''[2Klogin: '') = ''login: ''"
    by (simp add: example_eval)
  from read_channel_expect_returns_at_first_match [OF p3 nm d t m]
  show ?thesis
    unfolding s by (simp add: example_clock_def)
qed

theorem read_channel_expect_pattern_timeout_witness:
  "read_channel_expect ascii_lib (SSHChannel_read_buffer ascii_lib) ''login:'' 1 0
     (example_clock 1000 1, example_ssh (example_shell [Ready ([CHR 0x1B] @ ''[2Kabc'')])) =
   Some (Inl (NetmikoTimeoutException
      (NL @ NL @ ''Timed-out reading channel, pattern not found in output: login:'' @ NL @
       ''Data retrieved before timeout:'' @ NL @ NL @ ''abc'' @ NL @ NL)),
    (example_clock 1000 1)\<lparr>time_calls := 3, slept := [loop_sleep_time]\<rparr>,
    (example_ssh (example_shell []))
      \<lparr>session_log := Some (example_log\<lparr>written := [[CHR 0x1B] @ ''[2Kabc'', []]\<rparr>)\<rparr>)"
proof -
  let ?rb = "SSHChannel_read_buffer ascii_lib"
  let ?w = "example_clock 1000 1"
  let ?ch = "example_ssh (example_shell [Ready ([CHR 0x1B] @ ''[2Kabc'')])"
  let ?ch' = "(example_ssh (example_shell []))
      \<lparr>session_log := Some (example_log\<lparr>written := [[CHR 0x1B] @ ''[2Kabc'', []]\<rparr>)\<rparr>"
  have p1: "polled ?rb (Suc 0) ?ch = (Inr ([CHR 0x1B] @ ''[2Kabc''),
      (example_ssh (example_shell []))
      \<lparr>session_log := Some (example_log\<lparr>written := [[CHR 0x1B] @ ''[2Kabc'']\<rparr>)\<rparr>)"
    by (simp add: example_eval)
  have p2: "polled ?rb (Suc (Suc 0)) ?ch = (Inr ([CHR 0x1B] @ ''[2Kabc''), ?ch')"
    by (simp add: example_eval)
  have nm: "\<forall>j. 1 \<le> j \<and> j \<le> Suc (Suc 0) \<longrightarrow>
           (\<exists>b s. polled ?rb j ?ch = (Inr b, s) \<and> re_search ascii_lib ''login:'' b 0 = Inr False)"
  proof (intro allI impI)
    fix j :: nat assume "1 \<le> j \<and> j \<le> Suc (Suc 0)"
    then have "j = Suc 0 \<or> j = Suc (Suc 0)" by arith
    then show "\<exists>b s. polled ?rb j ?ch = (Inr b, s) \<and> re_search ascii_lib ''login:'' b 0 = Inr False"
    proof
      assume "j = Suc 0"
      then show ?thesis unfolding p1 \<open>j = Suc 0\<close> by (simp add: ascii_lib_def)
    next
      assume "j = Suc (Suc 0)"
      then show ?thesis unfolding p2 \<open>j = Suc (Suc 0)\<close> by (simp add: ascii_lib_def)
    qed
  qed
  have d: "float_add ascii_lib (wall_clock ?w (time_calls ?w)) 1 = Inr 1001"
    by (simp add: ascii_lib_def example_clock_def)
  have t: "\<forall>j. 1 \<le> j \<and> j \<le> Suc 0 \<longrightarrow> \<not> wall_clock ?w (time_calls ?w + j) > 1001"
  proof (intro allI impI)
    fix j :: nat assume "1 \<le> j \<and> j \<le> Suc 0"
    then have "j = Suc 0" by arith
    then show "\<not> wall_clock ?w (time_calls ?w + j) > 1001"
      by (simp add: example_clock_def)
  qed
  have past: "wall_clock ?w (time_calls ?w + Suc (Suc 0)) > 1001"
    by (simp add: example_clock_def)
  have s: "strip_ansi_escape_codes ascii_lib ([CHR 0x1B] @ ''[2Kabc'') = ''abc''"
    by (simp add: example_eval)
  from read_channel_expect_pattern_timeout [OF p2 nm d t past]
  show ?thesis
    unfolding s by (simp add: pattern_timeout_msg_def example_clock_def)
qed

theorem read_channel_expect_pattern_test_first_witness:
  "read_channel_expect ascii_lib (SSHChannel_read_buffer ascii_lib) ''login:'' 1 0
     (example_clock 1000 1, example_ssh (example_shell [NotReady, Ready ''login: '', Ready ''more''])) =
   Some (Inr ''login: '',
    (example_clock 1000 1)\<lparr>time_calls := 2, slept := [loop_sleep_time]\<rparr>,
    (example_ssh (example_shell [Ready ''more'']))
      \<lparr>session_log := Some (example_log\<lparr>written := [[], ''login: '']\<rparr>)\<rparr>) \<and>
   wall_clock (example_clock 1000 1) 2 > 1001"
proof -
  let ?rb = "SSHChannel_read_buffer ascii_lib"
  let ?w = "example_clock 1000 1"
  let ?ch = "example_ssh (example_shell [NotReady, Ready ''login: '', Ready ''more''])"
  let ?ch' = "(example_ssh (example_shell [Ready ''more'']))
      \<lparr>session_log := Some (example_log\<lparr>written := [[], ''login: '']\<rparr>)\<rparr>"
  have p1: "polled ?rb (Suc 0) ?ch = (Inr [],
      (example_ssh (example_shell [Ready ''login: '', Ready ''more'']))
      \<lparr>session_log := Some (example_log\<lparr>written := [[]]\<rparr>)\<rparr>)"
    by (simp add: example_eval)
  have p2: "polled ?rb (Suc (Suc 0)) ?ch = (Inr ''login: '', ?ch')"
    by (simp add: example_eval)
  have nm: "\<forall>j. 1 \<le> j \<and> j \<le> Suc 0 \<longrightarrow>
           (\<exists>b s. polled ?rb j ?ch = (Inr b, s) \<and> re_search ascii_lib ''login:'' b 0 = Inr False)"
  proof (intro allI impI)
    fix j :: nat assume "1 \<le> j \<and> j \<le> Suc 0"
    then have j: "j = Suc 0" by arith
    show "\<exists>b s. polled ?rb j ?ch = (Inr b, s) \<and> re_search ascii_lib ''login:'' b 0 = Inr False"
      unfolding j p1 by (simp add: ascii_lib_def)
  qed
  have d: "float_add ascii_lib (wall_clock ?w (time_calls ?w)) 1 = Inr 1001"
    by (simp add: ascii_lib_def example_clock_def)
  have t: "\<forall>j. 1 \<le> j \<and> j \<le> Suc 0 \<longrightarrow> \<not> wall_clock ?w (time_calls ?w + j) > 1001"
  proof (intro allI impI)
    fix j :: nat assume "1 \<le> j \<and> j \<le> Suc 0"
    then have "j = Suc 0" by arith
    then show "\<not> wall_clock ?w (time_calls ?w + j) > 1001"
      by (simp add: example_clock_def)
  qed
  have past: "wall_clock ?w (time_calls ?w + Suc (Suc 0)) > 1001"
    by (simp add: example_clock_def)
  have m: "re_search ascii_lib ''login:'' ''login: '' 0 = Inr True"
    by (simp add: ascii_lib_def)
  have s: "strip_ansi_escape_codes ascii_lib ''login: '' = ''login: ''"
    by (simp add: example_eval)
  from read_channel_expect_pattern_test_first [OF p2 nm d t past]
  show ?thesis
    unfolding m s by (simp add: example_clock_def)
qed

section \<open>Properties of the single poll and of the write decorator\<close>

lemma logged_remote_conn [simp]: "remote_conn (logged d s) = remote_conn s"
  by (simp add: logged_def)


lemma log_reads_ok:
  assumes "func self = (Inr out, self')"
    and "\<forall>sl. session_log self' = Some sl \<longrightarrow> write_error sl = None"
  shows "log_reads func self = (Inr out, logged out self')"
  using assms by (auto simp: log_reads_def logged_def SessionLog_write_def split: option.splits)


lemma SSHChannel_read_buffer_data:
  assumes "remote_conn self = Attr (Some c)" and "incoming c = Ready b # ps"
    and "b \<noteq> []" and "length b \<le> MAX_BUFFER L"
    and "\<forall>sl. session_log self = Some sl \<longrightarrow> write_error sl = None"
  shows "SSHChannel_read_buffer L self =
           (Inr (decode_utf8_ignore L b),
            logged (decode_utf8_ignore L b) (self\<lparr>remote_conn := Attr (Some (c\<lparr>incoming := ps\<rparr>))\<rparr>))"
  unfolding SSHChannel_read_buffer_def
  by (rule log_reads_ok)
     (use assms in \<open>simp_all add: SSHChannel_read_buffer_func_def recv_ready_def recv_def\<close>)


lemma logged_appends:
  assumes "session_log self = Some sl"
  shows "session_log (logged data self) = Some (sl\<lparr>written := written sl @ [data]\<rparr>)"
    and "logged data self \<noteq> self"
proof -
  show a: "session_log (logged data self) = Some (sl\<lparr>written := written sl @ [data]\<rparr>)"
    using assms by (simp add: logged_def)
  show "logged data self \<noteq> self"
  proof
    assume "logged data self = self"
    then have "session_log (logged data self) = session_log self" by simp
    with a assms have "sl\<lparr>written := written sl @ [data]\<rparr> = sl" by simp
    then have "written (sl\<lparr>written := written sl @ [data]\<rparr>) = written sl" by simp
    then show False by simp
  qed
qed

text \<open>
  Claim C5. The secure-shell \<open>read_buffer\<close> is a single poll. With no connection, or
  when \<open>recv_ready()\<close> answers \<open>False\<close>, it returns the empty string: \<open>recv\<close> is not
  called (the shell is left as \<open>recv_ready\<close> left it), there is no clock among its
  arguments, so it cannot sleep, and the only other effect is the empty string
  appended to the session log. When \<open>recv\<close> returns no bytes it raises \<open>EOFError\<close>
  instead of returning the empty string. The session log's own \<open>write\<close> is assumed not
  to raise.
\<close>

theorem SSHChannel_read_buffer_single_poll:
  assumes "\<forall>sl. session_log self = Some sl \<longrightarrow> write_error sl = None"
  shows "(remote_conn self = Attr None \<longrightarrow>
            SSHChannel_read_buffer L self = (Inr [], logged [] self)) \<and>
         (remote_conn self = Attr (Some c) \<and> recv_ready c = (False, c') \<longrightarrow>
            SSHChannel_read_buffer L self =
              (Inr [], logged [] (self\<lparr>remote_conn := Attr (Some c')\<rparr>))) \<and>
         (remote_conn self = Attr (Some c) \<and> recv_ready c = (True, c') \<and>
          recv (MAX_BUFFER L) c' = (Inr [], c'') \<longrightarrow>
            SSHChannel_read_buffer L self =
              (Inl (EOFError ''Channel stream closed by remote device.''),
               self\<lparr>remote_conn := Attr (Some c'')\<rparr>))"
  using assms
  by (auto simp: SSHChannel_read_buffer_def SSHChannel_read_buffer_func_def log_reads_def
        logged_def SessionLog_write_def split: option.splits)

theorem SSHChannel_read_buffer_single_poll_witness:
  "SSHChannel_read_buffer ascii_lib (example_ssh (example_shell [NotReady, Ready ''x''])) =
     (Inr [], logged [] (example_ssh (example_shell [Ready ''x'']))) \<and>
   SSHChannel_read_buffer ascii_lib (example_ssh (example_shell [Ready []])) =
     (Inl (EOFError ''Channel stream closed by remote device.''), example_ssh (example_shell []))"
proof -
  have ok: "\<forall>sl. session_log (example_ssh (example_shell script)) = Some sl \<longrightarrow> write_error sl = None"
    for script
    by (simp add: example_eval)
  from SSHChannel_read_buffer_single_poll [OF ok, where L = ascii_lib
         and c = "example_shell [NotReady, Ready ''x'']" and c' = "example_shell [Ready ''x'']"]
       SSHChannel_read_buffer_single_poll [OF ok, where L = ascii_lib
         and c = "example_shell [Ready []]" and c' = "example_shell [Ready []]"
         and c'' = "example_shell []"]
  show ?thesis
    by (simp add: example_eval logged_def)
qed

text \<open>
  Claim C10. After the wrapped write has returned, \<open>log_writes\<close> appends the text to
  the session log exactly when there is a session log and \<open>fin\<close> or \<open>record_writes\<close>
  is set (one of them suffices), provided that nothing raises while logging. When
  \<open>write_bytes\<close> or the session log raises \<open>UnicodeDecodeError\<close> while logging, the
  call still returns normally and the channel is as the wrapped write left it.
\<close>

theorem log_writes_session_log:
  assumes "func self out_data = (Inr u, self1)"
  shows "(write_bytes L out_data (encoding self1) = Inr b \<and> session_log self1 = None \<longrightarrow>
            log_writes L func self out_data = (Inr (), self1)) \<and>
         (write_bytes L out_data (encoding self1) = Inr b \<and> session_log self1 = Some sl \<and>
          write_error sl = None \<longrightarrow>
            log_writes L func self out_data =
              (Inr (), if fin sl \<or> record_writes sl then logged out_data self1 else self1)) \<and>
         (isinstance_UnicodeDecodeError e \<and>
          (write_bytes L out_data (encoding self1) = Inl e \<or>
           write_bytes L out_data (encoding self1) = Inr b \<and> session_log self1 = Some sl \<and>
           (fin sl \<or> record_writes sl) \<and> write_error sl = Some e) \<longrightarrow>
            log_writes L func self out_data = (Inr (), self1))"
  using assms
  by (auto simp: log_writes_def logged_def SessionLog_write_def Let_def split: option.splits)

theorem log_writes_session_log_witness:
  "SSHChannel_write_channel ascii_lib (example_ssh (example_shell [])) ''show version'' =
     (Inr (), logged ''show version''
                (example_ssh ((example_shell [])\<lparr>sent := [''show version'']\<rparr>))) \<and>
   SSHChannel_write_channel ascii_lib
       ((example_ssh (example_shell []))
          \<lparr>session_log := Some (example_log\<lparr>write_error := Some (UnicodeDecodeError ''ascii'')\<rparr>)\<rparr>)
       ''show version'' =
     (Inr (), (example_ssh ((example_shell [])\<lparr>sent := [''show version'']\<rparr>))
          \<lparr>session_log := Some (example_log\<lparr>write_error := Some (UnicodeDecodeError ''ascii'')\<rparr>)\<rparr>)"
proof -
  let ?s = "example_ssh (example_shell [])"
  let ?s1 = "example_ssh ((example_shell [])\<lparr>sent := [''show version'']\<rparr>)"
  let ?bad = "example_log\<lparr>write_error := Some (UnicodeDecodeError ''ascii'')\<rparr>"
  have f1: "SSHChannel_write_channel_func ascii_lib ?s ''show version'' = (Inr (), ?s1)"
    by (simp add: SSHChannel_write_channel_func_def sendall_def example_eval)
  have f2: "SSHChannel_write_channel_func ascii_lib (?s\<lparr>session_log := Some ?bad\<rparr>) ''show version'' =
      (Inr (), ?s1\<lparr>session_log := Some ?bad\<rparr>)"
    by (simp add: SSHChannel_write_channel_func_def sendall_def example_eval)
  from log_writes_session_log [where func = "SSHChannel_write_channel_func ascii_lib"
         and L = ascii_lib and b = "''show version''" and sl = example_log, OF f1]
       log_writes_session_log [where func = "SSHChannel_write_channel_func ascii_lib"
         and L = ascii_lib and b = "''show version''" and sl = ?bad
         and e = "UnicodeDecodeError ''ascii''", OF f2]
  show ?thesis
    by (simp add: SSHChannel_write_channel_def example_eval logged_def)
qed

section \<open>Properties of the secure-shell \<open>read_channel_timing\<close>\<close>

lemma read_buffer_readable_aux:
  assumes "readable L self"
  shows "isl (fst (SSHChannel_read_buffer L self)) = False"
    and "readable L (snd (SSHChannel_read_buffer L self))"
  using assms
  by (auto simp: readable_def SSHChannel_read_buffer_def SSHChannel_read_buffer_func_def
        log_reads_def SessionLog_write_def recv_ready_def recv_def min_def
        split: attribute.splits option.splits list.splits poll.splits if_splits
        dest: in_set_dropD)

lemma read_buffer_readable:
  assumes "readable L self"
  shows "\<exists>new self'. SSHChannel_read_buffer L self = (Inr new, self') \<and> readable L self'"
  using read_buffer_readable_aux [OF assms]
  by (cases "SSHChannel_read_buffer L self"; cases "fst (SSHChannel_read_buffer L self)") auto

lemma read_channel_loop_readable:
  assumes "readable L self"
  shows "\<exists>out self'. SSHChannel_read_channel_loop L acc self = (Inr out, self') \<and> readable L self'"
  using assms
proof (induction L acc self rule: SSHChannel_read_channel_loop.induct)
  case (1 L acc self)
  from read_buffer_readable [OF 1(2)] obtain new s1 where
    rb: "SSHChannel_read_buffer L self = (Inr new, s1)" and r1: "readable L s1"
    by blast
  show ?case
  proof (cases "new = []")
    case True
    with rb r1 show ?thesis
      by (subst SSHChannel_read_channel_loop.simps) simp
  next
    case False
    from 1(1) [OF rb [symmetric] refl refl False r1] obtain out s2 where
      "SSHChannel_read_channel_loop L (acc @ new) s1 = (Inr out, s2)" and "readable L s2"
      by blast
    with rb False show ?thesis
      by (subst SSHChannel_read_channel_loop.simps) simp
  qed
qed

lemma read_channel_readable:
  assumes "readable L self"
  shows "\<exists>out self'. SSHChannel_read_channel L self = (Inr out, self') \<and> readable L self'"
  using read_channel_loop_readable [OF assms, of "[]"]
  by (auto simp: SSHChannel_read_channel_def SSHChannel_read_channel_func_def ansi_strip_def)

lemma unread_read_channel_loop:
  assumes "SSHChannel_read_channel_loop L acc self = (r, self')"
  shows "unread self' \<le> unread self \<and>
         (\<forall>out. r = Inr out \<longrightarrow> out \<noteq> acc \<longrightarrow> unread self' < unread self)"
  using assms
proof (induction L acc self rule: SSHChannel_read_channel_loop.induct)
  case (1 L acc self)
  obtain r1 s1 where rb: "SSHChannel_read_buffer L self = (r1, s1)"
    by (cases "SSHChannel_read_buffer L self")
  note u = unread_read_buffer [OF rb]
  show ?case
  proof (cases r1)
    case (Inl e)
    with rb 1(2) u show ?thesis
      by (subst (asm) SSHChannel_read_channel_loop.simps) auto
  next
    case (Inr new)
    show ?thesis
    proof (cases "new = []")
      case True
      with rb Inr 1(2) u show ?thesis
        by (subst (asm) SSHChannel_read_channel_loop.simps) auto
    next
      case False
      from 1(2) rb Inr False have rec: "SSHChannel_read_channel_loop L (acc @ new) s1 = (r, self')"
        by (subst (asm) SSHChannel_read_channel_loop.simps) simp
      from 1(1) [OF rb [unfolded Inr, symmetric] refl refl False rec] u Inr False
      show ?thesis by auto
    qed
  qed
qed

lemma unread_read_channel:
  assumes "SSHChannel_read_channel L self = (Inr new, self')"
    and "strip_ansi_escape_codes L [] = []"
  shows "unread self' \<le> unread self \<and> (new \<noteq> [] \<longrightarrow> unread self' < unread self)"
proof -
  obtain r s where l: "SSHChannel_read_channel_loop L [] self = (r, s)"
    by (cases "SSHChannel_read_channel_loop L [] self")
  from assms(1) l obtain out where r: "r = Inr out" and s: "s = self'"
    and n: "new = strip_ansi_escape_codes L out"
    by (auto simp: SSHChannel_read_channel_def SSHChannel_read_channel_func_def ansi_strip_def
          split: sum.splits)
  from unread_read_channel_loop [OF l] r s n assms(2) show ?thesis
    by auto
qed

lemma time_sleep_nonneg:
  "0 \<le> secs \<Longrightarrow> time_sleep secs w = Inr (w\<lparr>slept := slept w @ [secs]\<rparr>)"
  by (simp add: time_sleep_def)

lemma read_channel_timing_loop_step:
  assumes "0 \<le> float_mul L loop_sleep_time delay_factor"
    and "0 \<le> float_mul L final_delay delay_factor"
    and "SSHChannel_read_channel L self = (Inr new1, self1)"
    and "SSHChannel_read_channel L self1 = (Inr new2, self2)"
  shows "SSHChannel_read_channel_timing_loop L delay_factor read_timeout channel_data (w, self) =
     (let w1 = w\<lparr>slept := slept w @ [float_mul L loop_sleep_time delay_factor]\<rparr>;
          w2 = w1\<lparr>slept := slept w1 @ [float_mul L final_delay delay_factor]\<rparr>;
          t = wall_clock w (time_calls w)
      in if new1 \<noteq> [] then
           (if t > read_timeout
            then Some (Inr (channel_data @ new1), w1\<lparr>time_calls := Suc (time_calls w)\<rparr>, self1)
            else SSHChannel_read_channel_timing_loop L delay_factor read_timeout
                   (channel_data @ new1) (w1\<lparr>time_calls := Suc (time_calls w)\<rparr>, self1))
         else if new2 = [] then Some (Inr channel_data, w2, self2)
         else if t > read_timeout
         then Some (Inr (channel_data @ new2), w2\<lparr>time_calls := Suc (time_calls w)\<rparr>, self2)
         else SSHChannel_read_channel_timing_loop L delay_factor read_timeout
                (channel_data @ new2) (w2\<lparr>time_calls := Suc (time_calls w)\<rparr>, self2))"
  by (subst SSHChannel_read_channel_timing_loop.simps)
     (simp add: time_sleep_nonneg [OF assms(1)] time_sleep_nonneg [OF assms(2)] assms(3,4)
        Let_def time_time_def)

lemma read_channel_timing_loop_returns:
  assumes "readable L self" and "strip_ansi_escape_codes L [] = []"
    and "0 \<le> float_mul L loop_sleep_time delay_factor"
    and "0 \<le> float_mul L final_delay delay_factor"
  shows "\<exists>data w' self'.
           SSHChannel_read_channel_timing_loop L delay_factor read_timeout channel_data (w, self) =
             Some (Inr data, w', self') \<and> readable L self'"
  using assms(1)
proof (induction "unread self" arbitrary: self w channel_data rule: less_induct)
  case less
  from read_channel_readable [OF less.prems] obtain new1 self1 where
    r1: "SSHChannel_read_channel L self = (Inr new1, self1)" and h1: "readable L self1"
    by blast
  from read_channel_readable [OF h1] obtain new2 self2 where
    r2: "SSHChannel_read_channel L self1 = (Inr new2, self2)" and h2: "readable L self2"
    by blast
  note u1 = unread_read_channel [OF r1 assms(2)]
  note u2 = unread_read_channel [OF r2 assms(2)]
  note step = read_channel_timing_loop_step [OF assms(3,4) r1 r2, of read_timeout channel_data w]
  show ?case
  proof (cases "new1 \<noteq> []")
    case True
    with u1 have "unread self1 < unread self" by simp
    from less.hyps [OF this h1] True h1 show ?thesis
      unfolding step by (auto simp: Let_def)
  next
    case False
    show ?thesis
    proof (cases "new2 = []")
      case True
      with False h2 show ?thesis
        unfolding step by (simp add: Let_def)
    next
      case n2: False
      with u1 u2 have "unread self2 < unread self" by simp
      from less.hyps [OF this h2] False n2 h2 show ?thesis
        unfolding step by (auto simp: Let_def)
    qed
  qed
qed

lemma SSHChannel_read_channel_timing_returns_data:
  assumes "readable L self" and "strip_ansi_escape_codes L [] = []"
    and "0 \<le> float_mul L loop_sleep_time delay_factor"
    and "0 \<le> float_mul L final_delay delay_factor"
    and "float_add L (wall_clock w (time_calls w)) timeout = Inr read_timeout"
  shows "\<exists>data w' self'.
           SSHChannel_read_channel_timing L delay_factor timeout (w, self) =
             Some (Inr data, w', self') \<and> readable L self'"
  unfolding SSHChannel_read_channel_timing_def
  using read_channel_timing_loop_returns [OF assms(1-4)] assms(5)
  by (simp add: time_time_def)

lemma SSHChannel_read_channel_timing_example:
  "SSHChannel_read_channel_timing ascii_lib 1 10 (example_clock 1000 1,
     example_ssh (example_shell [Ready ''abc'', NotReady, NotReady, Ready ''def''])) =
   Some (Inr ''abcdef'',
     (example_clock 1000 1)
       \<lparr>time_calls := 3,
        slept := [loop_sleep_time, loop_sleep_time, 2, loop_sleep_time, 2]\<rparr>,
     (example_ssh (example_shell []))
       \<lparr>session_log := Some (example_log\<lparr>written := [''abc'', [], [], ''def'', [], [], []]\<rparr>)\<rparr>)"
  by (simp add: SSHChannel_read_channel_timing_def SSHChannel_read_channel_timing_loop.simps
        SSHChannel_read_channel_def SSHChannel_read_channel_func_def ansi_strip_def
        SSHChannel_read_channel_loop.simps time_sleep_def time_time_def loop_sleep_time_def
        final_delay_def example_clock_def example_eval)

section \<open>Properties of the backends\<close>

text \<open>
  Claim C4 (the code departs from it). \<open>close()\<close> on a secure-shell channel that was
  never opened raises \<open>AttributeError\<close>: \<open>remote_conn_pre\<close> is set by
  \<open>establish_connection\<close> only, so both the \<open>try\<close> and the second \<open>del\<close> of the
  \<open>finally\<close> block fail, and the handle is left deleted rather than \<open>None\<close>.
\<close>

theorem SSHChannel_close_never_opened:
  "SSHChannel_close (SSHChannel_init params dev hostkey_args enc slog keys pw) =
     (Inl (AttributeError ''remote_conn_pre''),
      (SSHChannel_init params dev hostkey_args enc slog keys pw)\<lparr>remote_conn := NoAttr\<rparr>)"
  by (simp add: SSHChannel_close_def SSHChannel_init_def)

text \<open>
  The same defect on the second of two calls: \<open>close()\<close> on an open channel deletes
  both attributes, and closing again raises \<open>AttributeError\<close>. The remote-terminal
  backend, with \<open>except Exception: pass\<close>, never raises and always leaves \<open>None\<close>;
  the serial backend has no \<open>except\<close> and passes on what the transport raises.
\<close>

lemma SSHChannel_close_twice:
  assumes "remote_conn self = Attr rc" and "remote_conn_pre self = Attr client"
    and "close_error client = None"
  shows "SSHChannel_close self = (Inr (), self\<lparr>remote_conn := NoAttr, remote_conn_pre := NoAttr\<rparr>)"
    and "SSHChannel_close (snd (SSHChannel_close self)) =
           (Inl (AttributeError ''remote_conn''),
            self\<lparr>remote_conn := NoAttr, remote_conn_pre := NoAttr\<rparr>)"
  using assms by (simp_all add: SSHChannel_close_def SSHClient_close_def)

lemma TelnetChannel_close_never_raises:
  "TelnetChannel_close self = (Inr (), snd (TelnetChannel_close self)) \<and>
   remote_conn (snd (TelnetChannel_close self)) = Attr None"
  by (simp add: TelnetChannel_close_def Let_def split: attribute.splits option.splits prod.splits sum.splits)

lemma SerialChannel_close_propagates:
  assumes "remote_conn self = Attr (Some c)" and "serial_close_error c = Some e"
  shows "SerialChannel_close self = (Inl e, self\<lparr>remote_conn := Attr None\<rparr>)"
  using assms by (simp add: SerialChannel_close_def Serial_close_def)

text \<open>
  Claim C7 (the code departs from it). \<open>is_alive()\<close> on a serial channel that was never
  opened returns \<open>None\<close>, not \<open>False\<close>: the method is \<open>pass\<close>.
\<close>

theorem SerialChannel_is_alive_returns_None:
  "SerialChannel_is_alive (SerialChannel_init dev enc slog) =
     (Inr None, SerialChannel_init dev enc slog)"
  by (simp add: SerialChannel_is_alive_def)

text \<open>
  The other two backends return \<open>False\<close> before \<open>establish_connection\<close>.
\<close>

lemma TelnetChannel_is_alive_never_opened:
  "TelnetChannel_is_alive (TelnetChannel_init dev enc slog) =
     (Inr False, TelnetChannel_init dev enc slog)"
  by (simp add: TelnetChannel_is_alive_def TelnetChannel_init_def)

lemma SSHChannel_is_alive_never_opened:
  "SSHChannel_is_alive L (SSHChannel_init params dev hostkey_args enc slog keys pw) =
     (Inr False, SSHChannel_init params dev hostkey_args enc slog keys pw)"
  by (simp add: SSHChannel_is_alive_def SSHChannel_init_def)

text \<open>
  Claim C3 (the code departs from it). The remote-terminal \<open>read_channel_timing\<close> is
  \<open>pass\<close>: for every delay factor and timeout it returns \<open>None\<close> at once, and neither
  the clock nor the channel changes, so it neither sleeps nor reads.
\<close>

theorem TelnetChannel_read_channel_timing_returns_None:
  "TelnetChannel_read_channel_timing delay_factor timeout (w, self) = (Inr None, w, self)"
  by (simp add: TelnetChannel_read_channel_timing_def)

text \<open>The serial backend has the same stub; the secure-shell backend alone runs the
  loop (\<open>read_channel_timing_loop_step\<close>, \<open>SSHChannel_read_channel_timing_returns_data\<close>).\<close>

lemma SerialChannel_read_channel_timing_returns_None:
  "SerialChannel_read_channel_timing delay_factor timeout (w, self) = (Inr None, w, self)"
  by (simp add: SerialChannel_read_channel_timing_def)

lemma build_ssh_client_close_error:
  "build_ssh_client env no_auth self = Inr client \<Longrightarrow> close_error client = client_close_error env"
  by (auto simp: build_ssh_client_def Let_def split: if_splits option.splits sum.splits)

lemma lstrip_tcp_failed_msg: "lstrip (tcp_failed_msg dev host port') = tcp_failed_msg dev host port'"
  by (simp add: lstrip_def tcp_failed_msg_def isspace_def)

lemma lstrip_dns_failure_msg: "lstrip (dns_failure_msg host port') = dns_failure_msg host port'"
  by (simp add: lstrip_def dns_failure_msg_def isspace_def)

lemma tcp_failed_msg_names_device:
  "str_in (dev @ '' '' @ fmt_host host @ '':'' @ str_int port') (tcp_failed_msg dev host port')"
  unfolding tcp_failed_msg_def
  using str_in_append [of "dev @ '' '' @ fmt_host host @ '':'' @ str_int port'"
     "''TCP connection to device failed.'' @ NL @ NL @
     ''Common causes of this problem are:'' @ NL @
     ''1. Incorrect hostname or IP address.'' @ NL @
     ''2. Wrong TCP port.'' @ NL @
     ''3. Intermediate firewall blocking access.'' @ NL @ NL @
     ''Device settings: ''" "NL @ NL"]
  by simp

lemma dns_failure_msg_names_host:
  "str_in (fmt_host host @ '':'' @ str_int port') (dns_failure_msg host port')"
  unfolding dns_failure_msg_def
  using str_in_append [of "fmt_host host @ '':'' @ str_int port'"
     "''DNS failure--the hostname you provided was not resolvable in DNS: ''" "[]"]
  by simp

lemma SSHChannel_close_built:
  assumes "remote_conn self = Attr rc" and "close_error client = None"
  shows "SSHChannel_close (self\<lparr>remote_conn_pre := Attr client\<rparr>) =
           (Inr (), self\<lparr>remote_conn := NoAttr, remote_conn_pre := NoAttr\<rparr>)"
  using assms by (simp add: SSHChannel_close_def SSHClient_close_def)

text \<open>
  When \<open>connect\<close> raises on a channel that still has its \<open>remote_conn\<close> attribute,
  as after \<open>__init__\<close>, and the client's own \<open>close()\<close> does not raise,
  \<open>establish_connection\<close> translates the failure. A \<open>socket.error\<close> becomes
  \<open>NetmikoTimeoutException\<close> with the message that names the device type and
  \<open>host:port\<close>, or with the DNS message when the error's text contains
  \<open>Name or service not known\<close>. An \<open>SSHException\<close> whose text contains
  \<open>No existing session\<close> becomes \<open>NetmikoTimeoutException\<close> advising a larger
  timeout; any other \<open>SSHException\<close> is raised again as it is. In each of these cases
  the channel is left as \<open>close()\<close> leaves it, and \<open>close()\<close> returned normally.
\<close>

lemma SSHChannel_establish_connection_first_attempt:
  assumes "build_ssh_client env False self = Inr client"
    and "remote_conn self = Attr rc"
    and "client_close_error env = None"
    and "connect_error env = Some err"
    and "host = hostname (ssh_params self)"
    and "port' = (case port (ssh_params self) of None \<Rightarrow> 22 | Some p \<Rightarrow> p)"
    and "after_close = snd (SSHChannel_close (self\<lparr>remote_conn_pre := Attr client\<rparr>))"
  shows "(isinstance_socket_error err \<and> \<not> str_in ''Name or service not known'' (str_exn err) \<longrightarrow>
            SSHChannel_establish_connection env width height self =
              (Inl (NetmikoTimeoutException (tcp_failed_msg (device_type self) host port')), after_close) \<and>
            str_in (device_type self @ '' '' @ fmt_host host @ '':'' @ str_int port')
              (tcp_failed_msg (device_type self) host port')) \<and>
         (isinstance_socket_error err \<and> str_in ''Name or service not known'' (str_exn err) \<longrightarrow>
            SSHChannel_establish_connection env width height self =
              (Inl (NetmikoTimeoutException (dns_failure_msg host port')), after_close) \<and>
            str_in (fmt_host host @ '':'' @ str_int port') (dns_failure_msg host port')) \<and>
         (\<not> isinstance_socket_error err \<and> isinstance_SSHException err \<and>
          str_in ''No existing session'' (str_exn err) \<longrightarrow>
            SSHChannel_establish_connection env width height self =
              (Inl (NetmikoTimeoutException no_session_msg), after_close)) \<and>
         (\<not> isinstance_socket_error err \<and> isinstance_SSHException err \<and>
          \<not> str_in ''No existing session'' (str_exn err) \<longrightarrow>
            SSHChannel_establish_connection env width height self = (Inl err, after_close)) \<and>
         SSHChannel_close (self\<lparr>remote_conn_pre := Attr client\<rparr>) =
           (Inr (), self\<lparr>remote_conn := NoAttr, remote_conn_pre := NoAttr\<rparr>)"
proof -
  have ce: "close_error client = None"
    using build_ssh_client_close_error [OF assms(1)] assms(3) by simp
  note cl = SSHChannel_close_built [OF assms(2) ce]
  have names: "str_in (device_type self @ '' '' @ fmt_host host @ '':'' @ str_int port')
      (tcp_failed_msg (device_type self) host port')"
    by (rule tcp_failed_msg_names_device)
  have names_dns: "str_in (fmt_host host @ '':'' @ str_int port') (dns_failure_msg host port')"
    by (rule dns_failure_msg_names_host)
  show ?thesis
    using names names_dns unfolding assms(5,6,7) cl
    by (simp add: SSHChannel_establish_connection_def assms(1,4) cl Let_def
          lstrip_tcp_failed_msg lstrip_dns_failure_msg)
qed

text \<open>
  \<open>close()\<close> runs before the translation: what the client's \<open>close()\<close> raises there
  is what \<open>establish_connection\<close> raises, in place of the translated error.
\<close>

lemma SSHChannel_establish_connection_close_raises:
  assumes "build_ssh_client env False self = Inr client"
    and "remote_conn self = Attr rc"
    and "client_close_error env = Some e"
    and "connect_error env = Some err"
    and "isinstance_socket_error err \<or> isinstance_SSHException err"
  shows "SSHChannel_establish_connection env width height self =
           (Inl e, self\<lparr>remote_conn := NoAttr, remote_conn_pre := NoAttr\<rparr>)"
proof -
  have ce: "close_error client = Some e"
    using build_ssh_client_close_error [OF assms(1)] assms(3) by simp
  have cl: "SSHChannel_close (self\<lparr>remote_conn_pre := Attr client\<rparr>) =
      (Inl e, self\<lparr>remote_conn := NoAttr, remote_conn_pre := NoAttr\<rparr>)"
    using assms(2) ce by (simp add: SSHChannel_close_def SSHClient_close_def)
  show ?thesis
    using assms(5)
    by (auto simp: SSHChannel_establish_connection_def assms(1,4) cl Let_def)
qed

text \<open>
  Claim C6 (the code departs from it). A connection that is refused twice: the first
  \<open>establish_connection\<close> raises \<open>NetmikoTimeoutException\<close> with the message that names
  the device type and \<open>host:port\<close>, and its \<open>close()\<close> deletes \<open>remote_conn\<close>. The
  second call on the same channel builds a new client, \<open>connect\<close> raises
  \<open>socket.error\<close> again, and \<open>close()\<close> in the \<open>except\<close> clause raises
  \<open>AttributeError\<close> at \<open>del self.remote_conn\<close>: the failure is not translated, and
  the new client, on which \<open>close()\<close> has been called once, stays in
  \<open>remote_conn_pre\<close>.
\<close>

theorem SSHChannel_establish_connection_retry:
  "SSHChannel_establish_connection refusing_env 511 1000
     (SSHChannel_init example_params ''cisco_ios'' None ''ascii'' None False None) =
   (Inl (NetmikoTimeoutException
      (''TCP connection to device failed.'' @ NL @ NL @
       ''Common causes of this problem are:'' @ NL @
       ''1. Incorrect hostname or IP address.'' @ NL @
       ''2. Wrong TCP port.'' @ NL @
       ''3. Intermediate firewall blocking access.'' @ NL @ NL @
       ''Device settings: cisco_ios router1:22'' @ NL @ NL)),
    (SSHChannel_init example_params ''cisco_ios'' None ''ascii'' None False None)
      \<lparr>remote_conn := NoAttr\<rparr>) \<and>
   SSHChannel_establish_connection refusing_env 511 1000
     (snd (SSHChannel_establish_connection refusing_env 511 1000
        (SSHChannel_init example_params ''cisco_ios'' None ''ascii'' None False None))) =
   (Inl (AttributeError ''remote_conn''),
    (SSHChannel_init example_params ''cisco_ios'' None ''ascii'' None False None)
      \<lparr>remote_conn := NoAttr,
       remote_conn_pre := Attr
         \<lparr>noauth = False, system_host_keys_loaded = False, host_keys_loaded = None,
          missing_host_key_policy = Some AutoAddPolicy, connected = False,
          close_calls = 1, close_error = None\<rparr>\<rparr>)"
proof -
  let ?self = "SSHChannel_init example_params ''cisco_ios'' None ''ascii'' None False None"
  have first: "SSHChannel_establish_connection refusing_env 511 1000 ?self =
   (Inl (NetmikoTimeoutException
      (''TCP connection to device failed.'' @ NL @ NL @
       ''Common causes of this problem are:'' @ NL @
       ''1. Incorrect hostname or IP address.'' @ NL @
       ''2. Wrong TCP port.'' @ NL @
       ''3. Intermediate firewall blocking access.'' @ NL @ NL @
       ''Device settings: cisco_ios router1:22'' @ NL @ NL)),
    ?self\<lparr>remote_conn := NoAttr\<rparr>)"
    by (simp add: SSHChannel_establish_connection_def build_ssh_client_def refusing_env_def
          SSHChannel_init_def example_params_def tcp_failed_msg_def fmt_host_def
          str_int_def digit_char_def SSHChannel_close_def SSHClient_close_def
          lstrip_def isspace_def Let_def)
  have second: "SSHChannel_establish_connection refusing_env 511 1000 (?self\<lparr>remote_conn := NoAttr\<rparr>) =
   (Inl (AttributeError ''remote_conn''),
    ?self\<lparr>remote_conn := NoAttr,
       remote_conn_pre := Attr
         \<lparr>noauth = False, system_host_keys_loaded = False, host_keys_loaded = None,
          missing_host_key_policy = Some AutoAddPolicy, connected = False,
          close_calls = 1, close_error = None\<rparr>\<rparr>)"
    by (simp add: SSHChannel_establish_connection_def build_ssh_client_def refusing_env_def
          SSHChannel_init_def example_params_def SSHChannel_close_def SSHClient_close_def
          Let_def)
  show ?thesis
    unfolding first by (simp only: snd_conv second simp_thms)
qed

text \<open>The \<open>except\<close> clause for \<open>AuthenticationException\<close> comes after the one for
  \<open>SSHException\<close>, its superclass, and is never reached: a rejected login is raised
  again as paramiko's exception, after \<open>close()\<close>, and not as
  \<open>NetmikoAuthenticationException\<close>.\<close>

lemma SSHChannel_establish_connection_auth_failure:
  assumes "build_ssh_client env False self = Inr client"
    and "remote_conn self = Attr rc"
    and "client_close_error env = None"
    and "connect_error env = Some (AuthenticationException m)"
    and "\<not> str_in ''No existing session'' m"
  shows "SSHChannel_establish_connection env width height self =
           (Inl (AuthenticationException m),
            self\<lparr>remote_conn := NoAttr, remote_conn_pre := NoAttr\<rparr>)"
proof -
  have ce: "close_error client = None"
    using build_ssh_client_close_error [OF assms(1)] assms(3) by simp
  note cl = SSHChannel_close_built [OF assms(2) ce]
  show ?thesis
    by (simp add: SSHChannel_establish_connection_def assms(1,4,5) cl Let_def)
qed

section \<open>A write followed by a read on a loop-back shell\<close>






lemma char_of_233: "char_of (233 :: nat) = CHR 0xE9"
  by code_simp



lemma utf8_decode_e_acute: "utf8_decode_ignore [CHR 0xC3, CHR 0xA9] = [CHR 0xE9]"
  by (simp add: is_ascii_def is_continuation_def char_of_233)
























end
